theory Spec2Isabelle
  imports Main "HOL-Library.Sublist"
begin

section \<open>JavaScript strings\<close>

text \<open>
  A JavaScript string is a sequence of UTF-16 code units and \<open>length\<close> counts code
  units. The bullet glyph U+2022 and the en dash U+2013 occur in the source's patterns, so
  a code unit is an integer (0 to 65535); \<open>js\<close> turns an ASCII literal into such a string.
\<close>

type_synonym cu = int
type_synonym jsstring = "cu list"

definition js :: "string \<Rightarrow> jsstring" where
  "js s = map of_char s"

definition cc :: "char \<Rightarrow> cu" where
  "cc c = of_char c"

text \<open>
  \<open>WhiteSpace\<close> and \<open>LineTerminator\<close> of ECMAScript: what \<open>trim()\<close> strips and what
  \<open>\s\<close> matches.
\<close>

definition ws_ranges :: "(cu \<times> cu) list" where
  "ws_ranges = [(9, 13), (32, 32), (160, 160), (5760, 5760), (8192, 8202), (8232, 8233),
     (8239, 8239), (8287, 8287), (12288, 12288), (65279, 65279)]"

definition in_ranges :: "cu \<Rightarrow> (cu \<times> cu) list \<Rightarrow> bool" where
  "in_ranges c rs = list_ex (\<lambda>r. fst r \<le> c \<and> c \<le> snd r) rs"

definition is_ws :: "cu \<Rightarrow> bool" where
  "is_ws c = in_ranges c ws_ranges"

definition trim :: "jsstring \<Rightarrow> jsstring" where
  "trim s = rev (dropWhile is_ws (rev (dropWhile is_ws s)))"

text \<open>
  \<open>toLowerCase()\<close>. The source only searches lowered strings for ASCII keywords and never
  returns them, so the model is exact on the code units whose lower-case form contains an
  ASCII unit: A-Z, U+0130 (to \<open>i\<close> followed by U+0307) and the Kelvin sign U+212A (to
  \<open>k\<close>). Every other code unit is kept; the runtime maps it to non-ASCII units.
\<close>

definition lower_cu :: "cu \<Rightarrow> jsstring" where
  "lower_cu c = (if 65 \<le> c \<and> c \<le> 90 then [c + 32]
                 else if c = 304 then [105, 775]
                 else if c = 8490 then [107]
                 else [c])"

definition toLowerCase :: "jsstring \<Rightarrow> jsstring" where
  "toLowerCase s = concat (map lower_cu s)"

text \<open>\<open>s.includes(sub)\<close>: \<open>sub\<close> occurs in \<open>s\<close> as a contiguous block.\<close>

fun includes_str :: "jsstring \<Rightarrow> jsstring \<Rightarrow> bool" where
  "includes_str [] sub = (sub = [])"
| "includes_str (x # xs) sub = (prefix sub (x # xs) \<or> includes_str xs sub)"

text \<open>\<open>xs.join(sep)\<close>.\<close>

fun join :: "jsstring \<Rightarrow> jsstring list \<Rightarrow> jsstring" where
  "join sep [] = []"
| "join sep [x] = x"
| "join sep (x # y # ys) = x @ sep @ join sep (y # ys)"

text \<open>
  \<open>s.split(sep)\<close> for a non-empty string separator: \<open>cur\<close> is the piece being read.
  On the empty string the result is the one-element array holding the empty string.
\<close>

function split_go :: "jsstring \<Rightarrow> jsstring \<Rightarrow> jsstring \<Rightarrow> jsstring list" where
  "split_go sep cur [] = [cur]"
| "split_go sep cur (x # xs) =
     (if sep \<noteq> [] \<and> prefix sep (x # xs)
      then cur # split_go sep [] (drop (length sep) (x # xs))
      else split_go sep (cur @ [x]) xs)"
  by pat_completeness auto
termination
  by (relation "measure (\<lambda>(sep, cur, s). length s)") (auto simp: neq_Nil_conv)

definition split :: "jsstring \<Rightarrow> jsstring \<Rightarrow> jsstring list" where
  "split sep s = split_go sep [] s"

text \<open>\<open>xs.slice(a, b)\<close> and \<open>xs.slice(a)\<close> for \<open>0 \<le> a\<close>.\<close>

definition slice :: "'a list \<Rightarrow> nat \<Rightarrow> nat \<Rightarrow> 'a list" where
  "slice xs a b = take (b - a) (drop a xs)"

text \<open>\<open>x || d\<close> on a string that may be \<open>null\<close> or \<open>undefined\<close>: the empty string is falsy.\<close>

definition truthy :: "jsstring option \<Rightarrow> bool" where
  "truthy v = (case v of None \<Rightarrow> False | Some s \<Rightarrow> s \<noteq> [])"

definition or_str :: "jsstring option \<Rightarrow> jsstring \<Rightarrow> jsstring" where
  "or_str v d = (case v of None \<Rightarrow> d | Some s \<Rightarrow> if s = [] then d else s)"

definition or_null :: "jsstring option \<Rightarrow> jsstring option" where
  "or_null v = (case v of None \<Rightarrow> None | Some s \<Rightarrow> if s = [] then None else Some s)"

section \<open>Regular expressions\<close>

text \<open>
  The patterns of the source as syntax trees, matched the way ECMAScript matches them: by
  backtracking, alternatives left to right, quantifiers greedy. \<open>ends r (i, cs)\<close> lists,
  in the order the backtracking matcher tries them, the positions where a match of \<open>r\<close>
  that starts at index \<open>i\<close> with \<open>cs\<close> still to read can end; the head of the list is
  the match the runtime reports. An iteration of a star that reads nothing is rejected,
  as the runtime does.
\<close>

datatype re =
    Cls "(cu \<times> cu) list"
  | NCls "(cu \<times> cu) list"
  | Bol
  | Eps
  | Seq re re
  | Alt re re
  | Star re

function (sequential) ends :: "re \<Rightarrow> nat \<times> jsstring \<Rightarrow> (nat \<times> jsstring) list" where
  "ends (Cls rs) (i, []) = []"
| "ends (Cls rs) (i, c # cs) = (if in_ranges c rs then [(Suc i, cs)] else [])"
| "ends (NCls rs) (i, []) = []"
| "ends (NCls rs) (i, c # cs) = (if in_ranges c rs then [] else [(Suc i, cs)])"
| "ends Bol (i, cs) = (if i = 0 then [(i, cs)] else [])"
| "ends Eps p = [p]"
| "ends (Seq r1 r2) p = concat (map (ends r2) (ends r1 p))"
| "ends (Alt r1 r2) p = ends r1 p @ ends r2 p"
| "ends (Star r) p =
     concat (map (\<lambda>q. if length (snd q) < length (snd p) then ends (Star r) q else [])
                 (ends r p)) @ [p]"
  by pat_completeness auto
termination
  by (relation "inv_image (less_than <*lex*> less_than) (\<lambda>(r, p). (size r, length (snd p)))")
     auto

text \<open>Pattern syntax: literals, \<open>x?\<close>, \<open>x+\<close>, \<open>x{n}\<close>, \<open>x{n,m}\<close>, \<open>x{n,}\<close>, and the classes.\<close>

definition ch :: "char \<Rightarrow> re" where
  "ch c = Cls [(cc c, cc c)]"

definition ch_i :: "char \<Rightarrow> re" where
  "ch_i c = (let n = cc c in
     if 97 \<le> n \<and> n \<le> 122 then Cls [(n, n), (n - 32, n - 32)]
     else if 65 \<le> n \<and> n \<le> 90 then Cls [(n, n), (n + 32, n + 32)]
     else Cls [(n, n)])"

fun seqs :: "re list \<Rightarrow> re" where
  "seqs [] = Eps"
| "seqs [r] = r"
| "seqs (r # rs) = Seq r (seqs rs)"

fun alts :: "re list \<Rightarrow> re" where
  "alts [] = Cls []"
| "alts [r] = r"
| "alts (r # rs) = Alt r (alts rs)"

definition lit :: "string \<Rightarrow> re" where
  "lit s = seqs (map ch s)"

definition lit_i :: "string \<Rightarrow> re" where
  "lit_i s = seqs (map ch_i s)"

definition opt :: "re \<Rightarrow> re" where
  "opt r = Alt r Eps"

definition plus_re :: "re \<Rightarrow> re" where
  "plus_re r = Seq r (Star r)"

fun times_re :: "nat \<Rightarrow> re \<Rightarrow> re" where
  "times_re 0 r = Eps"
| "times_re (Suc 0) r = r"
| "times_re (Suc n) r = Seq r (times_re n r)"

fun upto_times :: "nat \<Rightarrow> re \<Rightarrow> re" where
  "upto_times 0 r = Eps"
| "upto_times (Suc 0) r = opt r"
| "upto_times (Suc n) r = opt (Seq r (upto_times n r))"

definition between :: "nat \<Rightarrow> nat \<Rightarrow> re \<Rightarrow> re" where
  "between n m r = (if n = 0 then upto_times m r
                    else if m = n then times_re n r
                    else Seq (times_re n r) (upto_times (m - n) r))"

definition at_least :: "nat \<Rightarrow> re \<Rightarrow> re" where
  "at_least n r = (if n = 0 then Star r else Seq (times_re n r) (Star r))"

definition digit :: re where
  "digit = Cls [(cc CHR ''0'', cc CHR ''9'')]"

definition word_char :: re where
  "word_char = Cls [(cc CHR ''a'', cc CHR ''z''), (cc CHR ''A'', cc CHR ''Z''),
                    (cc CHR ''0'', cc CHR ''9''), (cc CHR ''_'', cc CHR ''_'')]"

definition space :: re where
  "space = Cls ws_ranges"

definition non_space :: re where
  "non_space = NCls ws_ranges"

subsection \<open>The operations on patterns\<close>

text \<open>
  \<open>search r i cs\<close>: the leftmost match at or after index \<open>i\<close>, where \<open>cs\<close> is the rest
  of the string from \<open>i\<close>; \<open>exec r s lastIndex\<close> is \<open>RegExpBuiltinExec\<close> from
  \<open>lastIndex\<close> and gives the start and end index of the match.
\<close>

fun search :: "re \<Rightarrow> nat \<Rightarrow> jsstring \<Rightarrow> (nat \<times> nat) option" where
  "search r i [] = (case ends r (i, []) of [] \<Rightarrow> None | q # _ \<Rightarrow> Some (i, fst q))"
| "search r i (c # cs) =
     (case ends r (i, c # cs) of [] \<Rightarrow> search r (Suc i) cs | q # _ \<Rightarrow> Some (i, fst q))"

definition exec :: "re \<Rightarrow> jsstring \<Rightarrow> nat \<Rightarrow> (nat \<times> nat) option" where
  "exec r s lastIndex =
     (if lastIndex > length s then None else search r lastIndex (drop lastIndex s))"

text \<open>\<open>r.test(s)\<close> and \<open>s.match(r)[0]\<close> for a pattern without the \<open>g\<close> flag: no state.\<close>

definition test :: "re \<Rightarrow> jsstring \<Rightarrow> bool" where
  "test r s = (exec r s 0 \<noteq> None)"

definition match_first :: "re \<Rightarrow> jsstring \<Rightarrow> jsstring option" where
  "match_first r s = map_option (\<lambda>m. slice s (fst m) (snd m)) (exec r s 0)"

text \<open>
  \<open>r.test(s)\<close> for a pattern with the \<open>g\<close> flag: the search starts at the pattern
  object's \<open>lastIndex\<close>; a match stores its end there, a failure stores 0. The result is
  the answer and the new \<open>lastIndex\<close>.
\<close>

definition test_g :: "re \<Rightarrow> jsstring \<Rightarrow> nat \<Rightarrow> bool \<times> nat" where
  "test_g r s lastIndex =
     (case exec r s lastIndex of None \<Rightarrow> (False, 0) | Some m \<Rightarrow> (True, snd m))"

text \<open>
  \<open>s.match(r)\<close> for a pattern with the \<open>g\<close> flag: \<open>lastIndex\<close> is set to 0, every match
  is collected from left to right (after an empty match the search moves on by one code
  unit), and the failing search that ends the loop leaves \<open>lastIndex\<close> at 0. The empty
  list stands for the \<open>null\<close> the runtime returns when nothing matches.
\<close>

function matches_from :: "re \<Rightarrow> nat \<Rightarrow> jsstring \<Rightarrow> jsstring list" where
  "matches_from r i cs =
     (case ends r (i, cs) of
        q # _ \<Rightarrow>
          if length (snd q) < length cs
          then take (fst q - i) cs # matches_from r (fst q) (snd q)
          else (case cs of [] \<Rightarrow> [[]] | _ # t \<Rightarrow> [] # matches_from r (Suc i) t)
      | [] \<Rightarrow> (case cs of [] \<Rightarrow> [] | _ # t \<Rightarrow> matches_from r (Suc i) t))"
  by pat_completeness auto
termination
  by (relation "measure (\<lambda>(r, i, cs). length cs)") auto

definition match_all :: "re \<Rightarrow> jsstring \<Rightarrow> jsstring list" where
  "match_all r s = matches_from r 0 s"

text \<open>
  \<open>s.split(r)\<close>: a match is tried at every index \<open>q\<close> below the length; an empty match
  at the start of the current piece is skipped; the piece \<open>cur\<close> read so far is closed
  by any other match.
\<close>

function split_re_go :: "re \<Rightarrow> jsstring \<Rightarrow> nat \<Rightarrow> jsstring \<Rightarrow> jsstring list" where
  "split_re_go r cur i [] = [cur]"
| "split_re_go r cur i (c # t) =
     (case ends r (i, c # t) of
        [] \<Rightarrow> split_re_go r (cur @ [c]) (Suc i) t
      | q # _ \<Rightarrow>
          if length (snd q) < length (c # t) then cur # split_re_go r [] (fst q) (snd q)
          else if cur = [] then split_re_go r [c] (Suc i) t
          else cur # split_re_go r [c] (Suc i) t)"
  by pat_completeness auto
termination
  by (relation "measure (\<lambda>(r, cur, i, cs). length cs)") auto

definition split_re :: "re \<Rightarrow> jsstring \<Rightarrow> jsstring list" where
  "split_re r s = (if s = [] then (if ends r (0, []) = [] then [[]] else [])
                   else split_re_go r [] 0 s)"

text \<open>
  \<open>s.replace(r, rep)\<close> with a replacement string free of \<open>$\<close>: without the \<open>g\<close> flag
  the leftmost match is replaced, with it every match.
\<close>

definition replace_first :: "re \<Rightarrow> jsstring \<Rightarrow> jsstring \<Rightarrow> jsstring" where
  "replace_first r rep s =
     (case exec r s 0 of None \<Rightarrow> s | Some m \<Rightarrow> take (fst m) s @ rep @ drop (snd m) s)"

function replace_go :: "re \<Rightarrow> jsstring \<Rightarrow> nat \<Rightarrow> jsstring \<Rightarrow> jsstring" where
  "replace_go r rep i cs =
     (case ends r (i, cs) of
        q # _ \<Rightarrow>
          if length (snd q) < length cs then rep @ replace_go r rep (fst q) (snd q)
          else (case cs of [] \<Rightarrow> rep | c # t \<Rightarrow> rep @ c # replace_go r rep (Suc i) t)
      | [] \<Rightarrow> (case cs of [] \<Rightarrow> [] | c # t \<Rightarrow> c # replace_go r rep (Suc i) t))"
  by pat_completeness auto
termination
  by (relation "measure (\<lambda>(r, rep, i, cs). length cs)") auto

definition replace_all :: "re \<Rightarrow> jsstring \<Rightarrow> jsstring \<Rightarrow> jsstring" where
  "replace_all r rep s = replace_go r rep 0 s"

section \<open>The section detector\<close>

subsection \<open>The patterns\<close>

definition header_of :: "string list \<Rightarrow> re" where
  "header_of ws = Seq Bol (alts (map lit_i ws))"

datatype sectionName = Summary | Skills | Experience | Projects | Education

text \<open>\<open>SECTION_PATTERNS\<close>, in the order of its keys.\<close>

definition SECTION_PATTERNS :: "(sectionName \<times> re) list" where
  "SECTION_PATTERNS =
    [(Summary, header_of [''summary'', ''objective'', ''profile'', ''about'', ''about me'',
        ''professional summary'']),
     (Skills, header_of [''skills'', ''technical skills'', ''core competencies'', ''expertise'',
        ''technologies'']),
     (Experience, header_of [''experience'', ''work experience'', ''employment'',
        ''professional experience'', ''work history'']),
     (Projects, header_of [''projects'', ''personal projects'', ''key projects'', ''portfolio'']),
     (Education, header_of [''education'', ''academic'', ''qualifications'',
        ''academic background''])]"

definition email_chars :: "(cu \<times> cu) list" where
  "email_chars = [(cc CHR ''a'', cc CHR ''z''), (cc CHR ''A'', cc CHR ''Z''),
     (cc CHR ''0'', cc CHR ''9''), (cc CHR ''.'', cc CHR ''.''), (cc CHR ''_'', cc CHR ''_''),
     (cc CHR ''-'', cc CHR ''-'')]"

definition handle_chars :: "(cu \<times> cu) list" where
  "handle_chars = [(cc CHR ''a'', cc CHR ''z''), (cc CHR ''A'', cc CHR ''Z''),
     (cc CHR ''0'', cc CHR ''9''), (cc CHR ''_'', cc CHR ''_''), (cc CHR ''-'', cc CHR ''-'')]"

text \<open>\<open>/([a-zA-Z0-9._-]+@[a-zA-Z0-9._-]+\.[a-zA-Z0-9_-]+)/gi\<close>\<close>

definition EMAIL_PATTERN :: re where
  "EMAIL_PATTERN = seqs [plus_re (Cls email_chars), ch CHR ''@'', plus_re (Cls email_chars),
     ch CHR ''.'', plus_re (Cls handle_chars)]"

text \<open>\<open>/(\+?\d{1,3}[-.\s]?)?\(?\d{3}\)?[-.\s]?\d{3}[-.\s]?\d{4}/g\<close>\<close>

definition phone_sep :: re where
  "phone_sep = Cls ([(cc CHR ''-'', cc CHR ''-''), (cc CHR ''.'', cc CHR ''.'')] @ ws_ranges)"

definition PHONE_PATTERN :: re where
  "PHONE_PATTERN = seqs [opt (seqs [opt (ch CHR ''+''), between 1 3 digit, opt phone_sep]),
     opt (ch CHR ''(''), times_re 3 digit, opt (ch CHR '')''), opt phone_sep, times_re 3 digit,
     opt phone_sep, times_re 4 digit]"

text \<open>
  \<open>URL_PATTERNS\<close>: \<open>/github\.com\/([a-zA-Z0-9_-]+)/i\<close>,
  \<open>/linkedin\.com\/in\/([a-zA-Z0-9_-]+)/i\<close> and \<open>/(https?:\/\/[^\s]+)/gi\<close>. The group
  of the first two is the match without its fixed-length literal front.
\<close>

definition URL_github :: re where
  "URL_github = Seq (lit_i ''github.com/'') (plus_re (Cls handle_chars))"

definition URL_linkedin :: re where
  "URL_linkedin = Seq (lit_i ''linkedin.com/in/'') (plus_re (Cls handle_chars))"

definition URL_website :: re where
  "URL_website = seqs [lit_i ''http'', opt (ch_i CHR ''s''), lit_i ''://'', plus_re non_space]"

text \<open>The pattern literals inside the functions.\<close>

definition url_scheme :: re where \<comment> \<open>\<open>/https?:\/\//\<close>\<close>
  "url_scheme = seqs [lit ''http'', opt (ch CHR ''s''), lit ''://'']"

definition url_link :: re where \<comment> \<open>\<open>/(https?:\/\/[^\s]+)/\<close>\<close>
  "url_link = seqs [lit ''http'', opt (ch CHR ''s''), lit ''://'', plus_re non_space]"

definition spaces :: re where \<comment> \<open>\<open>/\s+/\<close>\<close>
  "spaces = plus_re space"

definition capital_start :: re where \<comment> \<open>\<open>/^[A-Z]/\<close>\<close>
  "capital_start = Seq Bol (Cls [(cc CHR ''A'', cc CHR ''Z'')])"

definition bullet_glyph :: re where \<comment> \<open>the class of U+2022, \<open>-\<close> and \<open>*\<close>\<close>
  "bullet_glyph = Cls [(8226, 8226), (cc CHR ''-'', cc CHR ''-''), (cc CHR ''*'', cc CHR ''*'')]"

definition bullet_start :: re where \<comment> \<open>the bullet class anchored at the start\<close>
  "bullet_start = Seq Bol bullet_glyph"

definition bullet_prefix :: re where \<comment> \<open>the same followed by \<open>\s*\<close>\<close>
  "bullet_prefix = seqs [Bol, bullet_glyph, Star space]"

definition datePattern :: re where \<comment> \<open>\<open>/(\d{4}|\w+\s+\d{4}|present|current)/i\<close>\<close>
  "datePattern = alts [times_re 4 digit,
     seqs [plus_re word_char, plus_re space, times_re 4 digit],
     lit_i ''present'', lit_i ''current'']"

definition part_sep :: re where \<comment> \<open>\<open>/\||,|\(/\<close>\<close>
  "part_sep = alts [ch CHR ''|'', ch CHR '','', ch CHR ''('']"

definition dash :: re where \<comment> \<open>the class of \<open>-\<close> and U+2013\<close>
  "dash = Cls [(cc CHR ''-'', cc CHR ''-''), (8211, 8211)]"

text \<open>
  \<open>/(\w+\s+\d{4}\s*[-\<dots>]\s*\w+\s+\d{4}|\w+\s+\d{4}\s*[-\<dots>]\s*present|\d{4}\s*[-\<dots>]\s*\d{4})/i\<close>
\<close>

definition durationPattern :: re where
  "durationPattern = alts
    [seqs [plus_re word_char, plus_re space, times_re 4 digit, Star space, dash, Star space,
           plus_re word_char, plus_re space, times_re 4 digit],
     seqs [plus_re word_char, plus_re space, times_re 4 digit, Star space, dash, Star space,
           lit_i ''present''],
     seqs [times_re 4 digit, Star space, dash, Star space, times_re 4 digit]]"

text \<open>\<open>/(bachelor|master|phd|doctorate|b\.s\.|m\.s\.|b\.a\.|m\.a\.|b\.tech|m\.tech)/i\<close>\<close>

definition degreePattern :: re where
  "degreePattern = alts (map lit_i [''bachelor'', ''master'', ''phd'', ''doctorate'', ''b.s.'',
     ''m.s.'', ''b.a.'', ''m.a.'', ''b.tech'', ''m.tech''])"

definition yearPattern :: re where \<comment> \<open>\<open>/\d{4}/\<close>\<close>
  "yearPattern = times_re 4 digit"

subsection \<open>The state of the module\<close>

text \<open>
  \<open>EMAIL_PATTERN\<close> and \<open>PHONE_PATTERN\<close> are module-level pattern objects with the \<open>g\<close>
  flag, so their \<open>lastIndex\<close> lives on between calls of \<open>test\<close>. The other module-level
  patterns have no \<open>g\<close> flag, except the website pattern, which is only given to
  \<open>match\<close>.
\<close>

record RegExpState =
  EMAIL_lastIndex :: nat
  PHONE_lastIndex :: nat

definition initial_state :: RegExpState where
  "initial_state = \<lparr>EMAIL_lastIndex = 0, PHONE_lastIndex = 0\<rparr>"

subsection \<open>detectName\<close>

definition matches_header :: "jsstring \<Rightarrow> bool" where
  "matches_header line = list_ex (\<lambda>sp. test (snd sp) line) SECTION_PATTERNS"

definition name_words :: "jsstring \<Rightarrow> jsstring list" where
  "name_words line = filter (\<lambda>w. length w > 0) (split_re spaces line)"

text \<open>
  The loop over the first five lines: \<open>Some line\<close> is the \<open>return\<close> inside the loop,
  \<open>None\<close> is the loop running to its end. The second test of
  \<open>EMAIL_PATTERN.test(line) || PHONE_PATTERN.test(line)\<close> only runs when the first fails.
\<close>

fun detectName_loop :: "jsstring list \<Rightarrow> RegExpState \<Rightarrow> jsstring option \<times> RegExpState" where
  "detectName_loop [] st = (None, st)"
| "detectName_loop (l # ls) st =
     (let line = trim l;
          e = test_g EMAIL_PATTERN line (EMAIL_lastIndex st);
          st1 = st\<lparr>EMAIL_lastIndex := snd e\<rparr>
      in if fst e then detectName_loop ls st1
         else
          (let p = test_g PHONE_PATTERN line (PHONE_lastIndex st1);
               st2 = st1\<lparr>PHONE_lastIndex := snd p\<rparr>
           in if fst p then detectName_loop ls st2
              else if test url_scheme line then detectName_loop ls st2
              else if length line > 50 then detectName_loop ls st2
              else if matches_header line then detectName_loop ls st2
              else
               (let words = name_words line
                in if length words \<ge> 2 \<and> length words \<le> 4 \<and> list_all (test capital_start) words
                   then (Some line, st2)
                   else detectName_loop ls st2)))"

definition detectName :: "jsstring list \<Rightarrow> RegExpState \<Rightarrow> jsstring \<times> RegExpState" where
  "detectName lines st =
     (case detectName_loop (take (min 5 (length lines)) lines) st of
        (Some line, st') \<Rightarrow> (line, st')
      | (None, st') \<Rightarrow>
          (case lines of
             [] \<Rightarrow> (js ''Unknown'', st')
           | l # _ \<Rightarrow> (if l = [] then js ''Unknown'' else l, st')))"

subsection \<open>detectContact and detectLinks\<close>

record Contact =
  email :: "jsstring option"
  phone :: "jsstring option"

definition first_or_null :: "jsstring list \<Rightarrow> jsstring option" where
  "first_or_null ms = (case ms of [] \<Rightarrow> None | m # _ \<Rightarrow> Some m)"

text \<open>Both calls of \<open>match\<close> leave the \<open>lastIndex\<close> of their pattern at 0.\<close>

definition detectContact :: "jsstring \<Rightarrow> RegExpState \<Rightarrow> Contact \<times> RegExpState" where
  "detectContact text st =
     (let emails = match_all EMAIL_PATTERN text;
          st1 = st\<lparr>EMAIL_lastIndex := 0\<rparr>;
          phones = match_all PHONE_PATTERN text;
          st2 = st1\<lparr>PHONE_lastIndex := 0\<rparr>
      in (\<lparr>email = first_or_null emails, phone = first_or_null phones\<rparr>, st2))"

record DetectedLinks =
  github :: "jsstring option"
  linkedin :: "jsstring option"
  website :: "jsstring option"

definition detectLinks :: "jsstring \<Rightarrow> DetectedLinks" where
  "detectLinks text =
     (let links = \<lparr>github = None, linkedin = None, website = None\<rparr>;
          links1 = (case match_first URL_github text of
                      Some m \<Rightarrow> links\<lparr>github :=
                        Some (js ''https://github.com/'' @ drop (length ''github.com/'') m)\<rparr>
                    | None \<Rightarrow> links);
          links2 = (case match_first URL_linkedin text of
                      Some m \<Rightarrow> links1\<lparr>linkedin :=
                        Some (js ''https://linkedin.com/in/'' @ drop (length ''linkedin.com/in/'') m)\<rparr>
                    | None \<Rightarrow> links1);
          otherUrls = filter (\<lambda>url. \<not> includes_str url (js ''github.com'')
                                     \<and> \<not> includes_str url (js ''linkedin.com''))
                        (match_all URL_website text)
      in (case otherUrls of [] \<Rightarrow> links2 | u # _ \<Rightarrow> links2\<lparr>website := Some u\<rparr>))"

subsection \<open>findSections\<close>

record Sections =
  sec_summary :: "jsstring list"
  sec_skills :: "jsstring list"
  sec_experience :: "jsstring list"
  sec_projects :: "jsstring list"
  sec_education :: "jsstring list"

definition no_sections :: Sections where
  "no_sections = \<lparr>sec_summary = [], sec_skills = [], sec_experience = [], sec_projects = [],
     sec_education = []\<rparr>"

fun get_section :: "sectionName \<Rightarrow> Sections \<Rightarrow> jsstring list" where
  "get_section Summary s = sec_summary s"
| "get_section Skills s = sec_skills s"
| "get_section Experience s = sec_experience s"
| "get_section Projects s = sec_projects s"
| "get_section Education s = sec_education s"

fun set_section :: "sectionName \<Rightarrow> jsstring list \<Rightarrow> Sections \<Rightarrow> Sections" where
  "set_section Summary v s = s\<lparr>sec_summary := v\<rparr>"
| "set_section Skills v s = s\<lparr>sec_skills := v\<rparr>"
| "set_section Experience v s = s\<lparr>sec_experience := v\<rparr>"
| "set_section Projects v s = s\<lparr>sec_projects := v\<rparr>"
| "set_section Education v s = s\<lparr>sec_education := v\<rparr>"

text \<open>The inner loop: the first pattern, in the order of the keys, that the line matches.\<close>

fun found_in :: "(sectionName \<times> re) list \<Rightarrow> jsstring \<Rightarrow> sectionName option" where
  "found_in [] line = None"
| "found_in (sp # sps) line = (if test (snd sp) line then Some (fst sp) else found_in sps line)"

definition foundSection :: "jsstring \<Rightarrow> sectionName option" where
  "foundSection l = found_in SECTION_PATTERNS (trim l)"

record FindState =
  sections :: Sections
  currentSection :: "sectionName option"
  sectionStartIndex :: int

definition save_section :: "jsstring list \<Rightarrow> nat \<Rightarrow> FindState \<Rightarrow> Sections" where
  "save_section lines i st =
     (case currentSection st of
        Some c \<Rightarrow> if sectionStartIndex st \<ge> 0
                  then set_section c (slice lines (nat (sectionStartIndex st)) i) (sections st)
                  else sections st
      | None \<Rightarrow> sections st)"

text \<open>The loop body at index \<open>i\<close>, and the loop over the lines still to visit.\<close>

definition findSections_step :: "jsstring list \<Rightarrow> nat \<Rightarrow> FindState \<Rightarrow> FindState" where
  "findSections_step lines i st =
     (case foundSection (lines ! i) of
        Some f \<Rightarrow> \<lparr>sections = save_section lines i st, currentSection = Some f,
                   sectionStartIndex = int i + 1\<rparr>
      | None \<Rightarrow> st)"

fun findSections_loop :: "jsstring list \<Rightarrow> nat \<Rightarrow> nat \<Rightarrow> FindState \<Rightarrow> FindState" where
  "findSections_loop lines i 0 st = st"
| "findSections_loop lines i (Suc n) st =
     findSections_loop lines (Suc i) n (findSections_step lines i st)"

definition findSections :: "jsstring list \<Rightarrow> Sections" where
  "findSections lines =
     (let st = findSections_loop lines 0 (length lines)
                 \<lparr>sections = no_sections, currentSection = None, sectionStartIndex = - 1\<rparr>
      in save_section lines (length lines) st)"

subsection \<open>The parsers of the sections\<close>

definition detectSummary :: "jsstring list \<Rightarrow> jsstring option" where
  "detectSummary sectionLines =
     (if length sectionLines = 0 then None
      else Some (trim (join (js '' '') (filter (\<lambda>line. length (trim line) > 0) sectionLines))))"

definition detectSkills :: "jsstring list \<Rightarrow> jsstring list" where
  "detectSkills sectionLines =
     (if length sectionLines = 0 then []
      else
       (let text = join (js '' '') sectionLines
        in if includes_str text (js '','')
           then filter (\<lambda>s. length s > 0) (map trim (split (js '','') text))
           else filter (\<lambda>line. length line > 0)
                  (map (\<lambda>line. replace_first bullet_prefix [] (trim line)) sectionLines)))"

text \<open>
  An entry as \<open>detectExperience\<close> builds it. \<open>role\<close> and \<open>company\<close> come out of the
  destructuring \<open>[role, company] = firstPart.split(' at ')\<close>, which leaves \<open>company\<close>
  \<open>undefined\<close> (\<open>None\<close>) when the split gives one piece.
\<close>

record RawExperience =
  rexp_role :: "jsstring option"
  rexp_company :: "jsstring option"
  rexp_duration :: jsstring
  rexp_description :: jsstring
  rexp_highlights :: "jsstring list"

definition new_experience :: "jsstring \<Rightarrow> RawExperience" where
  "new_experience trimmed =
     (let currentExp = \<lparr>rexp_role = Some [], rexp_company = Some [], rexp_duration = [],
            rexp_description = [], rexp_highlights = []\<rparr>;
          parts = map trim (split_re part_sep trimmed);
          exp1 = (case parts of
                    [] \<Rightarrow> currentExp
                  | firstPart # _ \<Rightarrow>
                      if includes_str (toLowerCase firstPart) (js '' at '')
                      then (case map trim (split (js '' at '') firstPart) of
                              role # company # _ \<Rightarrow>
                                currentExp\<lparr>rexp_role := Some role, rexp_company := Some company\<rparr>
                            | [role] \<Rightarrow>
                                currentExp\<lparr>rexp_role := Some role, rexp_company := None\<rparr>
                            | [] \<Rightarrow> currentExp\<lparr>rexp_role := None, rexp_company := None\<rparr>)
                      else currentExp\<lparr>rexp_role := Some firstPart\<rparr>)
      in case match_first durationPattern trimmed of
           Some d \<Rightarrow> exp1\<lparr>rexp_duration := d\<rparr>
         | None \<Rightarrow> exp1)"

definition push_current :: "'a option \<Rightarrow> 'a list \<Rightarrow> 'a list" where
  "push_current cur xs = (case cur of Some x \<Rightarrow> xs @ [x] | None \<Rightarrow> xs)"

text \<open>The loops carry the output array and the entry that is open.\<close>

fun detectExperience_loop ::
  "jsstring list \<Rightarrow> RawExperience list \<times> RawExperience option
     \<Rightarrow> RawExperience list \<times> RawExperience option" where
  "detectExperience_loop [] st = st"
| "detectExperience_loop (line # ls) (experiences, currentExp) =
     (let trimmed = trim line
      in if trimmed = [] then detectExperience_loop ls (experiences, currentExp)
         else if test datePattern trimmed
         then detectExperience_loop ls
                (push_current currentExp experiences, Some (new_experience trimmed))
         else (case currentExp of
                 Some e \<Rightarrow>
                   (let cleaned = replace_first bullet_prefix [] trimmed
                    in if length cleaned > 0
                       then detectExperience_loop ls
                              (experiences, Some (e\<lparr>rexp_highlights := rexp_highlights e @ [cleaned]\<rparr>))
                       else detectExperience_loop ls (experiences, currentExp))
               | None \<Rightarrow> detectExperience_loop ls (experiences, currentExp)))"

definition detectExperience :: "jsstring list \<Rightarrow> RawExperience list" where
  "detectExperience sectionLines =
     (if length sectionLines = 0 then []
      else
       (let st = detectExperience_loop sectionLines ([], None);
            experiences = push_current (snd st) (fst st)
        in map (\<lambda>e. e\<lparr>rexp_description := join (js '' '') (rexp_highlights e)\<rparr>) experiences))"

record RawProject =
  rproj_title :: jsstring
  rproj_tech :: "jsstring list"
  rproj_description :: jsstring
  rproj_link :: "jsstring option"

definition project_line :: "jsstring \<Rightarrow> RawProject \<Rightarrow> RawProject" where
  "project_line trimmed currentProject =
     (let cleaned = replace_first bullet_prefix [] trimmed;
          p1 = (if includes_str (toLowerCase cleaned) (js ''technologies:'')
                   \<or> includes_str (toLowerCase cleaned) (js ''tech stack:'')
                   \<or> includes_str (toLowerCase cleaned) (js ''built with:'')
                then (case split (js '':'') cleaned of
                        _ # techPart # _ \<Rightarrow>
                          if techPart \<noteq> []
                          then currentProject\<lparr>rproj_tech := map trim (split (js '','') techPart)\<rparr>
                          else currentProject
                      | _ \<Rightarrow> currentProject)
                else currentProject\<lparr>rproj_description :=
                       rproj_description currentProject
                       @ (if rproj_description currentProject \<noteq> [] then js '' '' else [])
                       @ cleaned\<rparr>)
      in case match_first url_link cleaned of
           Some l \<Rightarrow> p1\<lparr>rproj_link := Some l\<rparr>
         | None \<Rightarrow> p1)"

fun detectProjects_loop ::
  "jsstring list \<Rightarrow> RawProject list \<times> RawProject option
     \<Rightarrow> RawProject list \<times> RawProject option" where
  "detectProjects_loop [] st = st"
| "detectProjects_loop (line # ls) (projects, currentProject) =
     (let trimmed = trim line
      in if trimmed = [] then detectProjects_loop ls (projects, currentProject)
         else
          (let isBullet = test bullet_start trimmed
           in if \<not> isBullet \<and> length trimmed > 5 \<and> \<not> includes_str trimmed (js '':'')
              then detectProjects_loop ls
                     (push_current currentProject projects,
                      Some \<lparr>rproj_title = trimmed, rproj_tech = [], rproj_description = [],
                            rproj_link = None\<rparr>)
              else (case currentProject of
                      Some p \<Rightarrow> detectProjects_loop ls (projects, Some (project_line trimmed p))
                    | None \<Rightarrow> detectProjects_loop ls (projects, currentProject))))"

definition detectProjects :: "jsstring list \<Rightarrow> RawProject list" where
  "detectProjects sectionLines =
     (if length sectionLines = 0 then []
      else (let st = detectProjects_loop sectionLines ([], None)
            in push_current (snd st) (fst st)))"

record RawEducation =
  redu_degree :: jsstring
  redu_institution :: jsstring
  redu_year :: jsstring
  redu_details :: jsstring

definition new_education :: "jsstring \<Rightarrow> RawEducation" where
  "new_education trimmed =
     (let currentEdu = \<lparr>redu_degree = trimmed, redu_institution = [], redu_year = [],
            redu_details = []\<rparr>
      in case match_first yearPattern trimmed of
           Some y \<Rightarrow> currentEdu\<lparr>redu_year := y\<rparr>
         | None \<Rightarrow> currentEdu)"

fun detectEducation_loop ::
  "jsstring list \<Rightarrow> RawEducation list \<times> RawEducation option
     \<Rightarrow> RawEducation list \<times> RawEducation option" where
  "detectEducation_loop [] st = st"
| "detectEducation_loop (line # ls) (education, currentEdu) =
     (let trimmed = trim line
      in if trimmed = [] then detectEducation_loop ls (education, currentEdu)
         else if test degreePattern trimmed
         then detectEducation_loop ls
                (push_current currentEdu education, Some (new_education trimmed))
         else (case currentEdu of
                 Some e \<Rightarrow>
                   if redu_institution e = [] \<and> length trimmed > 5
                   then detectEducation_loop ls
                          (education, Some (e\<lparr>redu_institution := trimmed\<rparr>))
                   else detectEducation_loop ls
                          (education, Some (e\<lparr>redu_details :=
                             redu_details e @ (if redu_details e \<noteq> [] then js '' '' else [])
                             @ trimmed\<rparr>))
               | None \<Rightarrow> detectEducation_loop ls (education, currentEdu)))"

definition detectEducation :: "jsstring list \<Rightarrow> RawEducation list" where
  "detectEducation sectionLines =
     (if length sectionLines = 0 then []
      else (let st = detectEducation_loop sectionLines ([], None)
            in push_current (snd st) (fst st)))"

subsection \<open>detectSections\<close>

record DetectedSections =
  det_name :: "jsstring option"
  det_contact :: Contact
  det_links :: DetectedLinks
  det_summary :: "jsstring option"
  det_skills :: "jsstring list"
  det_experience :: "RawExperience list"
  det_projects :: "RawProject list"
  det_education :: "RawEducation list"

definition newline :: jsstring where
  "newline = [10]"

definition detectSections :: "jsstring \<Rightarrow> RegExpState \<Rightarrow> DetectedSections \<times> RegExpState" where
  "detectSections text st =
     (let lines = filter (\<lambda>line. length (trim line) > 0) (split newline text);
          n = detectName lines st;
          c = detectContact text (snd n);
          links = detectLinks text;
          secs = findSections lines
      in (\<lparr>det_name = Some (fst n),
           det_contact = fst c,
           det_links = links,
           det_summary = detectSummary (sec_summary secs),
           det_skills = detectSkills (sec_skills secs),
           det_experience = detectExperience (sec_experience secs),
           det_projects = detectProjects (sec_projects secs),
           det_education = detectEducation (sec_education secs)\<rparr>,
          snd c))"

section \<open>The normalizer\<close>

definition normalizeName :: "jsstring option \<Rightarrow> jsstring" where
  "normalizeName rawName =
     (case rawName of
        None \<Rightarrow> js ''Portfolio Owner''
      | Some n \<Rightarrow> if n = [] \<or> n = js ''Unknown'' then js ''Portfolio Owner'' else trim n)"

record Experience =
  exp_role :: jsstring
  exp_company :: jsstring
  exp_duration :: jsstring
  exp_description :: jsstring
  exp_highlights :: "jsstring list"

definition generateHeadline :: "jsstring \<Rightarrow> Experience list \<Rightarrow> jsstring" where
  "generateHeadline name experience =
     (case experience of
        [] \<Rightarrow> js ''Professional''
      | e # _ \<Rightarrow> if exp_role e \<noteq> [] then exp_role e else js ''Professional'')"

text \<open>\<open>categories\<close> and \<open>categorized\<close>, in the order of their keys.\<close>

definition categories :: "(jsstring \<times> jsstring list) list" where
  "categories =
    [(js ''Languages'', map js [''javascript'', ''python'', ''java'', ''c++'', ''c#'', ''ruby'',
        ''go'', ''rust'', ''typescript'', ''php'', ''swift'', ''kotlin'']),
     (js ''Frontend'', map js [''react'', ''vue'', ''angular'', ''html'', ''css'', ''tailwind'',
        ''bootstrap'', ''sass'', ''less'']),
     (js ''Backend'', map js [''node'', ''express'', ''django'', ''flask'', ''spring'',
        ''laravel'', ''.net'', ''fastapi'', ''nestjs'']),
     (js ''Database'', map js [''mongodb'', ''postgresql'', ''mysql'', ''redis'', ''dynamodb'',
        ''sql'', ''nosql'', ''firebase'']),
     (js ''DevOps'', map js [''docker'', ''kubernetes'', ''aws'', ''azure'', ''gcp'', ''ci/cd'',
        ''jenkins'', ''github actions'']),
     (js ''Tools'', map js [''git'', ''github'', ''gitlab'', ''jira'', ''figma'', ''postman'',
        ''vscode''])]"

definition categorized_empty :: "(jsstring \<times> jsstring list) list" where
  "categorized_empty = map (\<lambda>c. (js c, []))
     [''Languages'', ''Frontend'', ''Backend'', ''Database'', ''DevOps'', ''Tools'', ''Other'']"

fun first_category :: "(jsstring \<times> jsstring list) list \<Rightarrow> jsstring \<Rightarrow> jsstring option" where
  "first_category [] skillLower = None"
| "first_category (ck # rest) skillLower =
     (if list_ex (\<lambda>keyword. includes_str skillLower keyword) (snd ck) then Some (fst ck)
      else first_category rest skillLower)"

definition push_to ::
  "jsstring \<Rightarrow> jsstring \<Rightarrow> (jsstring \<times> jsstring list) list \<Rightarrow> (jsstring \<times> jsstring list) list" where
  "push_to category skill categorized =
     map (\<lambda>ci. if fst ci = category then (fst ci, snd ci @ [skill]) else ci) categorized"

definition categorize ::
  "(jsstring \<times> jsstring list) list \<Rightarrow> jsstring \<Rightarrow> (jsstring \<times> jsstring list) list" where
  "categorize categorized skill =
     (case first_category categories (toLowerCase skill) of
        Some category \<Rightarrow> push_to category skill categorized
      | None \<Rightarrow> push_to (js ''Other'') skill categorized)"

record SkillGroup =
  category :: jsstring
  items :: "jsstring list"

definition normalizeSkills :: "jsstring list \<Rightarrow> SkillGroup list" where
  "normalizeSkills rawSkills =
     (if length rawSkills = 0 then []
      else map (\<lambda>ci. \<lparr>category = fst ci, items = snd ci\<rparr>)
             (filter (\<lambda>ci. length (snd ci) > 0) (foldl categorize categorized_empty rawSkills)))"

definition normalizeExperience :: "RawExperience list \<Rightarrow> Experience list" where
  "normalizeExperience rawExperience =
     (if length rawExperience = 0 then []
      else map (\<lambda>exp. \<lparr>exp_role = or_str (rexp_role exp) (js ''Position''),
                        exp_company = or_str (rexp_company exp) [],
                        exp_duration = or_str (Some (rexp_duration exp)) [],
                        exp_description = or_str (Some (rexp_description exp)) [],
                        exp_highlights = rexp_highlights exp\<rparr>) rawExperience)"

record Project =
  proj_title :: jsstring
  proj_tech :: "jsstring list"
  proj_description :: jsstring
  proj_link :: "jsstring option"
  proj_image :: "jsstring option"

definition normalizeProjects :: "RawProject list \<Rightarrow> Project list" where
  "normalizeProjects rawProjects =
     (if length rawProjects = 0 then []
      else map (\<lambda>project. \<lparr>proj_title = or_str (Some (rproj_title project)) (js ''Untitled Project''),
                            proj_tech = rproj_tech project,
                            proj_description = or_str (Some (rproj_description project)) [],
                            proj_link = or_null (rproj_link project),
                            proj_image = None\<rparr>) rawProjects)"

record Education =
  edu_degree :: jsstring
  edu_institution :: jsstring
  edu_year :: jsstring
  edu_details :: jsstring

definition normalizeEducation :: "RawEducation list \<Rightarrow> Education list" where
  "normalizeEducation rawEducation =
     (if length rawEducation = 0 then []
      else map (\<lambda>edu. \<lparr>edu_degree = or_str (Some (redu_degree edu)) [],
                        edu_institution = or_str (Some (redu_institution edu)) [],
                        edu_year = or_str (Some (redu_year edu)) [],
                        edu_details = or_str (Some (redu_details edu)) []\<rparr>) rawEducation)"

record PortfolioLinks =
  l_github :: "jsstring option"
  l_linkedin :: "jsstring option"
  l_email :: "jsstring option"
  l_phone :: "jsstring option"
  l_website :: "jsstring option"

definition normalizeLinks :: "Contact \<Rightarrow> DetectedLinks \<Rightarrow> PortfolioLinks" where
  "normalizeLinks contact links =
     \<lparr>l_github = or_null (github links),
      l_linkedin = or_null (linkedin links),
      l_email = or_null (email contact),
      l_phone = or_null (phone contact),
      l_website = or_null (website links)\<rparr>"

record Colors =
  primary :: jsstring
  secondary :: jsstring
  accent :: jsstring

record Fonts =
  heading :: jsstring
  body :: jsstring

record Customizations =
  colors :: Colors
  fonts :: Fonts
  layout :: jsstring

record PortfolioRecord =
  name :: jsstring
  headline :: jsstring
  summary :: jsstring
  skills :: "SkillGroup list"
  experience :: "Experience list"
  projects :: "Project list"
  education :: "Education list"
  links :: PortfolioLinks
  theme :: jsstring
  customizations :: Customizations

definition createPortfolioSchema :: "DetectedSections \<Rightarrow> PortfolioRecord" where
  "createPortfolioSchema detectedSections =
     (let name = normalizeName (det_name detectedSections);
          skills = normalizeSkills (det_skills detectedSections);
          experience = normalizeExperience (det_experience detectedSections);
          projects = normalizeProjects (det_projects detectedSections);
          education = normalizeEducation (det_education detectedSections);
          links = normalizeLinks (det_contact detectedSections) (det_links detectedSections)
      in \<lparr>name = name,
          headline = generateHeadline name experience,
          summary = or_str (det_summary detectedSections) [],
          skills = skills,
          experience = experience,
          projects = projects,
          education = education,
          links = links,
          theme = js ''modern'',
          customizations =
            \<lparr>colors = \<lparr>primary = js ''#3B82F6'', secondary = js ''#1E40AF'',
                       accent = js ''#60A5FA''\<rparr>,
             fonts = \<lparr>heading = js ''Inter'', body = js ''Inter''\<rparr>,
             layout = js ''default''\<rparr>\<rparr>)"

section \<open>The text extractor\<close>

text \<open>\<open>/\n{3,}/g\<close>\<close>

definition three_breaks :: re where
  "three_breaks = at_least 3 (Cls [(10, 10)])"

definition normalizeText :: "jsstring \<Rightarrow> jsstring" where
  "normalizeText rawText =
     replace_all three_breaks (newline @ newline)
       (join newline (filter (\<lambda>line. length line > 0) (map trim (split newline rawText))))"

text \<open>
  The three decoders read the file system and call the PDF and DOCX libraries. The world
  gives, for each path, the text a decoder produces or the message of the error it throws.
  Every call of a decoder is recorded, so that what was attempted can be stated.
\<close>

record World =
  pdf_text :: "jsstring \<Rightarrow> jsstring + jsstring"
  docx_text :: "jsstring \<Rightarrow> jsstring + jsstring"
  txt_text :: "jsstring \<Rightarrow> jsstring + jsstring"

datatype attempt = ReadPDF jsstring | ReadDOCX jsstring | ReadTXT jsstring

datatype error =
    UnsupportedFormat jsstring
  | ExtractionFailure jsstring
  | InsufficientContent

text \<open>The message of the \<open>Error\<close> object that is thrown.\<close>

fun message :: "error \<Rightarrow> jsstring" where
  "message (UnsupportedFormat mimetype) = js ''Unsupported file type: '' @ mimetype"
| "message (ExtractionFailure m) = m"
| "message InsufficientContent =
     js ''Extracted text is too short. Please ensure the resume has readable content.''"

definition extractFromPDF :: "World \<Rightarrow> jsstring \<Rightarrow> attempt list \<times> (error + jsstring)" where
  "extractFromPDF w filePath =
     ([ReadPDF filePath],
      case pdf_text w filePath of
        Inl m \<Rightarrow> Inl (ExtractionFailure (js ''Failed to extract text from PDF: '' @ m))
      | Inr text \<Rightarrow> Inr text)"

definition extractFromDOCX :: "World \<Rightarrow> jsstring \<Rightarrow> attempt list \<times> (error + jsstring)" where
  "extractFromDOCX w filePath =
     ([ReadDOCX filePath],
      case docx_text w filePath of
        Inl m \<Rightarrow> Inl (ExtractionFailure (js ''Failed to extract text from DOCX: '' @ m))
      | Inr text \<Rightarrow> Inr text)"

definition extractFromTXT :: "World \<Rightarrow> jsstring \<Rightarrow> attempt list \<times> (error + jsstring)" where
  "extractFromTXT w filePath =
     ([ReadTXT filePath],
      case txt_text w filePath of
        Inl m \<Rightarrow> Inl (ExtractionFailure (js ''Failed to read TXT file: '' @ m))
      | Inr text \<Rightarrow> Inr text)"

definition extractText :: "World \<Rightarrow> jsstring \<Rightarrow> jsstring \<Rightarrow> attempt list \<times> (error + jsstring)" where
  "extractText w filePath mimetype =
     (let r = (if mimetype = js ''application/pdf'' then extractFromPDF w filePath
               else if mimetype =
                 js ''application/vnd.openxmlformats-officedocument.wordprocessingml.document''
               then extractFromDOCX w filePath
               else if mimetype = js ''text/plain'' then extractFromTXT w filePath
               else ([], Inl (UnsupportedFormat mimetype)))
      in (fst r, case snd r of Inl e \<Rightarrow> Inl e | Inr rawText \<Rightarrow> Inr (normalizeText rawText)))"

section \<open>The parsing service\<close>

record SectionsFound =
  hasName :: bool
  hasContact :: bool
  hasSkills :: bool
  hasExperience :: bool
  hasProjects :: bool
  hasEducation :: bool

record Metadata =
  textLength :: nat
  sectionsFound :: SectionsFound

text \<open>
  \<open>Success d m\<close> is \<open>{success: true, data: d, metadata: m}\<close> and \<open>Failure e\<close> is
  \<open>{success: false, error: e, data: null}\<close>.
\<close>

datatype ParseResult = Success PortfolioRecord Metadata | Failure jsstring

fun success :: "ParseResult \<Rightarrow> bool" where
  "success (Success d m) = True"
| "success (Failure e) = False"

fun data :: "ParseResult \<Rightarrow> PortfolioRecord option" where
  "data (Success d m) = Some d"
| "data (Failure e) = None"

fun metadata :: "ParseResult \<Rightarrow> Metadata option" where
  "metadata (Success d m) = Some m"
| "metadata (Failure e) = None"

fun error_message :: "ParseResult \<Rightarrow> jsstring option" where
  "error_message (Success d m) = None"
| "error_message (Failure e) = Some e"

text \<open>
  \<open>options.useAI\<close> may be absent; \<open>process.env.OPENAI_API_KEY\<close> may be unset. What a run
  of \<open>parseResume\<close> leaves behind besides its result: the decoder calls and the state of
  the module-level patterns. Console output is not modelled.
\<close>

record Options =
  useAI :: "bool option"

record Env =
  OPENAI_API_KEY :: "jsstring option"

record Run =
  result :: ParseResult
  attempts :: "attempt list"
  regexps :: RegExpState

definition parseResume ::
  "World \<Rightarrow> Env \<Rightarrow> RegExpState \<Rightarrow> jsstring \<Rightarrow> jsstring \<Rightarrow> Options \<Rightarrow> Run" where
  "parseResume w env st filePath mimetype options =
     (case extractText w filePath mimetype of
        (io, Inl e) \<Rightarrow> \<lparr>result = Failure (message e), attempts = io, regexps = st\<rparr>
      | (io, Inr rawText) \<Rightarrow>
          if rawText = [] \<or> length rawText < 50
          then \<lparr>result = Failure (message InsufficientContent), attempts = io, regexps = st\<rparr>
          else
           (let d = detectSections rawText st;
                detectedSections = fst d;
                portfolioData = createPortfolioSchema detectedSections;
                refined = (if useAI options = Some True \<and> truthy (OPENAI_API_KEY env)
                           then portfolioData else portfolioData)
            in \<lparr>result = Success refined
                   \<lparr>textLength = length rawText,
                    sectionsFound =
                      \<lparr>hasName = truthy (det_name detectedSections),
                       hasContact = (truthy (email (det_contact detectedSections))
                                     \<or> truthy (phone (det_contact detectedSections))),
                       hasSkills = (length (det_skills detectedSections) > 0),
                       hasExperience = (length (det_experience detectedSections) > 0),
                       hasProjects = (length (det_projects detectedSections) > 0),
                       hasEducation = (length (det_education detectedSections) > 0)\<rparr>\<rparr>,
                 attempts = io, regexps = snd d\<rparr>))"

section \<open>What the properties are stated with\<close>

subsection \<open>The leaves of a portfolio record\<close>

text \<open>
  A leaf of the record is a string or \<open>null\<close>, reached by a path of keys and array
  indices. \<open>leaves\<close> lists every leaf of a record with its path, \<open>null_leaves\<close> the
  paths that hold \<open>null\<close>.
\<close>

datatype seg = Key string | Idx nat

definition leaves_strings :: "seg list \<Rightarrow> jsstring list \<Rightarrow> (seg list \<times> jsstring option) list" where
  "leaves_strings p xs = map (\<lambda>ix. (p @ [Idx (fst ix)], Some (snd ix))) (enumerate 0 xs)"

definition leaves_skill :: "seg list \<Rightarrow> SkillGroup \<Rightarrow> (seg list \<times> jsstring option) list" where
  "leaves_skill p g =
     (p @ [Key ''category''], Some (category g)) # leaves_strings (p @ [Key ''items'']) (items g)"

definition leaves_experience :: "seg list \<Rightarrow> Experience \<Rightarrow> (seg list \<times> jsstring option) list" where
  "leaves_experience p e =
     [(p @ [Key ''role''], Some (exp_role e)),
      (p @ [Key ''company''], Some (exp_company e)),
      (p @ [Key ''duration''], Some (exp_duration e)),
      (p @ [Key ''description''], Some (exp_description e))]
     @ leaves_strings (p @ [Key ''highlights'']) (exp_highlights e)"

definition leaves_project :: "seg list \<Rightarrow> Project \<Rightarrow> (seg list \<times> jsstring option) list" where
  "leaves_project p x =
     (p @ [Key ''title''], Some (proj_title x))
     # leaves_strings (p @ [Key ''tech'']) (proj_tech x)
     @ [(p @ [Key ''description''], Some (proj_description x)),
        (p @ [Key ''link''], proj_link x),
        (p @ [Key ''image''], proj_image x)]"

definition leaves_education :: "seg list \<Rightarrow> Education \<Rightarrow> (seg list \<times> jsstring option) list" where
  "leaves_education p e =
     [(p @ [Key ''degree''], Some (edu_degree e)),
      (p @ [Key ''institution''], Some (edu_institution e)),
      (p @ [Key ''year''], Some (edu_year e)),
      (p @ [Key ''details''], Some (edu_details e))]"

definition leaves_links :: "seg list \<Rightarrow> PortfolioLinks \<Rightarrow> (seg list \<times> jsstring option) list" where
  "leaves_links p l =
     [(p @ [Key ''github''], l_github l),
      (p @ [Key ''linkedin''], l_linkedin l),
      (p @ [Key ''email''], l_email l),
      (p @ [Key ''phone''], l_phone l),
      (p @ [Key ''website''], l_website l)]"

definition leaves_customizations ::
  "seg list \<Rightarrow> Customizations \<Rightarrow> (seg list \<times> jsstring option) list" where
  "leaves_customizations p c =
     [(p @ [Key ''colors'', Key ''primary''], Some (primary (colors c))),
      (p @ [Key ''colors'', Key ''secondary''], Some (secondary (colors c))),
      (p @ [Key ''colors'', Key ''accent''], Some (accent (colors c))),
      (p @ [Key ''fonts'', Key ''heading''], Some (heading (fonts c))),
      (p @ [Key ''fonts'', Key ''body''], Some (body (fonts c))),
      (p @ [Key ''layout''], Some (layout c))]"

definition leaves_array ::
  "string \<Rightarrow> (seg list \<Rightarrow> 'a \<Rightarrow> (seg list \<times> jsstring option) list) \<Rightarrow> 'a list
     \<Rightarrow> (seg list \<times> jsstring option) list" where
  "leaves_array k f xs = concat (map (\<lambda>ix. f [Key k, Idx (fst ix)] (snd ix)) (enumerate 0 xs))"

definition leaves :: "PortfolioRecord \<Rightarrow> (seg list \<times> jsstring option) list" where
  "leaves r =
     [([Key ''name''], Some (name r)),
      ([Key ''headline''], Some (headline r)),
      ([Key ''summary''], Some (summary r))]
     @ leaves_array ''skills'' leaves_skill (skills r)
     @ leaves_array ''experience'' leaves_experience (experience r)
     @ leaves_array ''projects'' leaves_project (projects r)
     @ leaves_array ''education'' leaves_education (education r)
     @ leaves_links [Key ''links''] (links r)
     @ [([Key ''theme''], Some (theme r))]
     @ leaves_customizations [Key ''customizations''] (customizations r)"

definition null_leaves :: "PortfolioRecord \<Rightarrow> seg list list" where
  "null_leaves r = map fst (filter (\<lambda>pv. snd pv = None) (leaves r))"

subsection \<open>Inputs\<close>

text \<open>The detected sections of a document in which nothing was found.\<close>

definition nothing_detected :: DetectedSections where
  "nothing_detected =
     \<lparr>det_name = None,
      det_contact = \<lparr>email = None, phone = None\<rparr>,
      det_links = \<lparr>github = None, linkedin = None, website = None\<rparr>,
      det_summary = None, det_skills = [], det_experience = [], det_projects = [],
      det_education = []\<rparr>"

text \<open>Two lines with e-mail addresses, on which \<open>detectName\<close> alone is not repeatable.\<close>

definition two_mail_lines :: "jsstring list" where
  "two_mail_lines = [js ''a@b.cd xxxxxxxxxxxxxxx e@f.gh'', js ''Xxxxxxx A@b.cd'']"

definition two_mail_text :: jsstring where
  "two_mail_text = join newline two_mail_lines"

text \<open>The state one call of \<open>detectName\<close> on these lines leaves the patterns in.\<close>

definition stale_state :: RegExpState where
  "stale_state = \<lparr>EMAIL_lastIndex = 14, PHONE_lastIndex = 0\<rparr>"

text \<open>The MIME types \<open>extractText\<close> has a case for.\<close>

definition supported_types :: "jsstring list" where
  "supported_types = [js ''application/pdf'',
     js ''application/vnd.openxmlformats-officedocument.wordprocessingml.document'',
     js ''text/plain'']"

text \<open>
  A world whose only readable file is a plain-text file with the given content, and two
  contents whose normalized text has 50 and 49 code units.
\<close>

definition txt_world :: "jsstring \<Rightarrow> World" where
  "txt_world content =
     \<lparr>pdf_text = (\<lambda>p. Inl (js ''ENOENT'')), docx_text = (\<lambda>p. Inl (js ''ENOENT'')),
      txt_text = (\<lambda>p. Inr content)\<rparr>"

definition fifty :: jsstring where
  "fifty = join newline [js ''Jane Doe'', js ''  jane@x.org  '', [], js ''Skills'',
     js ''Python, React, Git, SQL'', []]"

definition fortynine :: jsstring where
  "fortynine = join newline [js ''Jane Doe'', js ''  jane@x.org  '', [], js ''Skills'',
     js ''Python, React, Go, SQL'', []]"

definition no_key :: Env where
  "no_key = \<lparr>OPENAI_API_KEY = None\<rparr>"

definition no_options :: Options where
  "no_options = \<lparr>useAI = None\<rparr>"

text \<open>A document whose experience section opens with a date range in parentheses.\<close>

definition gap_text :: jsstring where
  "gap_text = join newline [js ''Jane Doe'', js ''Experience'', js ''(Jan 2019 - Dec 2020)'',
     js ''- built many useful things'']"


text \<open>Detected sections with one project and nothing else.\<close>

definition one_project :: DetectedSections where
  "one_project = nothing_detected\<lparr>det_projects :=
     [\<lparr>rproj_title = js ''Portlify'', rproj_tech = [], rproj_description = [],
       rproj_link = None\<rparr>]\<rparr>"

text \<open>Two projects, the first with an empty link and the second with a link.\<close>

definition two_projects :: DetectedSections where
  "two_projects = nothing_detected\<lparr>det_projects :=
     [\<lparr>rproj_title = js ''Portlify'', rproj_tech = [], rproj_description = [],
       rproj_link = Some []\<rparr>,
      \<lparr>rproj_title = js ''Parser'', rproj_tech = [], rproj_description = [],
       rproj_link = Some (js ''https://x.org/p'')\<rparr>]\<rparr>"

subsection \<open>Normalized text\<close>

text \<open>
  A text without two line breaks next to each other, and a line as normalization leaves
  it: not empty, without a line break, and unchanged by \<open>trim\<close>.
\<close>

fun no_adj :: "jsstring \<Rightarrow> bool" where
  "no_adj (a # b # cs) = ((a \<noteq> 10 \<or> b \<noteq> 10) \<and> no_adj (b # cs))"
| "no_adj cs = True"

definition good_line :: "jsstring \<Rightarrow> bool" where
  "good_line l = (l \<noteq> [] \<and> 10 \<notin> set l \<and> trim l = l)"

subsection \<open>Lines with section headers\<close>

text \<open>Lines in which the skills header occurs twice, and lines with two different headers.\<close>

definition dup_lines :: "jsstring list" where
  "dup_lines = [js ''Skills'', js ''Python'', js ''Skills'', js ''Java'']"

definition cv_lines :: "jsstring list" where
  "cv_lines = [js ''Jane Doe'', js ''Skills'', js ''Python'', js ''Education'', js ''B.S. 2018'']"


section \<open>Repeated runs of the detector\<close>

text \<open>
  \<open>detectName\<close> tests lines with the two module-level patterns that carry the \<open>g\<close>
  flag, so what it answers depends on the \<open>lastIndex\<close> values an earlier call left. On
  its own it is not repeatable: on \<open>two_mail_lines\<close> the first call falls back to the
  first line and leaves \<open>EMAIL_PATTERN.lastIndex\<close> at 14, and the second call then
  misses the address in the second line and returns that line.
\<close>

lemma detectName_first_call:
  "detectName two_mail_lines initial_state
     = (js ''a@b.cd xxxxxxxxxxxxxxx e@f.gh'', \<lparr>EMAIL_lastIndex = 14, PHONE_lastIndex = 0\<rparr>)"
  by code_simp

lemma detectName_second_call:
  "detectName two_mail_lines \<lparr>EMAIL_lastIndex = 14, PHONE_lastIndex = 0\<rparr>
     = (js ''Xxxxxxx A@b.cd'', initial_state)"
  by code_simp

lemma detectName_alone_not_repeatable:
  "fst (detectName two_mail_lines (snd (detectName two_mail_lines initial_state)))
     \<noteq> fst (detectName two_mail_lines initial_state)"
  by (simp add: detectName_first_call detectName_second_call) code_simp

text \<open>
  Inside \<open>detectSections\<close> the call of \<open>detectName\<close> is followed by \<open>detectContact\<close>,
  whose two calls of \<open>match\<close> put both \<open>lastIndex\<close> values back to 0.
\<close>

lemma detectContact_resets: "snd (detectContact text st) = initial_state"
  by (simp add: detectContact_def initial_state_def Let_def)

lemma detectSections_resets: "snd (detectSections text st) = initial_state"
  by (simp add: detectSections_def Let_def detectContact_resets)

text \<open>
  So a run of \<open>detectSections\<close> that follows another run, on whatever text and from
  whatever state, returns what a run from the initial state returns; and likewise a
  second run of \<open>parseResume\<close> on the same file returns the result of the first.
\<close>

lemma detectSections_after_run:
  "fst (detectSections text' (snd (detectSections text st)))
     = fst (detectSections text' initial_state)"
  by (simp add: detectSections_resets)

lemma parseResume_repeatable:
  "result (parseResume w env (regexps (parseResume w env initial_state filePath mimetype options))
      filePath mimetype options)
     = result (parseResume w env initial_state filePath mimetype options)"
  by (cases "extractText w filePath mimetype")
     (auto simp: parseResume_def Let_def detectSections_resets split: sum.splits)

text \<open>
  But the first run after a direct call of the exported \<open>detectName\<close> starts from the
  \<open>lastIndex\<close> that call left, and answers differently.
\<close>

lemma stale_run_name:
  "det_name (fst (detectSections two_mail_text stale_state)) = Some (js ''Xxxxxxx A@b.cd'')"
  by code_simp

lemma fresh_run_name:
  "det_name (fst (detectSections two_mail_text initial_state))
     = Some (js ''a@b.cd xxxxxxxxxxxxxxx e@f.gh'')"
  by code_simp

lemma two_names_differ: "js ''a@b.cd xxxxxxxxxxxxxxx e@f.gh'' \<noteq> js ''Xxxxxxx A@b.cd''"
  by code_simp

text \<open>
  C2. Two runs of the detector on the same text are to give the same sections, no
  component keeping state between calls. The code keeps state: \<open>detectName\<close> calls
  \<open>test\<close> on the two module-level patterns with the \<open>g\<close> flag, and \<open>test\<close> starts at
  the \<open>lastIndex\<close> the call before left. One call of \<open>detectName\<close> on
  \<open>two_mail_lines\<close> leaves \<open>EMAIL_PATTERN.lastIndex\<close> at 14; of the two runs of
  \<open>detectSections\<close> on the same text that follow, the first detects the second line as
  the name and the second detects the first line. \<open>detectName\<close> called twice on the
  same lines differs in the same way.
\<close>

theorem stale_lastIndex_changes_detection:
  "snd (detectName two_mail_lines initial_state) = stale_state
   \<and> det_name (fst (detectSections two_mail_text stale_state)) = Some (js ''Xxxxxxx A@b.cd'')
   \<and> det_name (fst (detectSections two_mail_text (snd (detectSections two_mail_text stale_state))))
       = Some (js ''a@b.cd xxxxxxxxxxxxxxx e@f.gh'')
   \<and> fst (detectSections two_mail_text (snd (detectSections two_mail_text stale_state)))
       \<noteq> fst (detectSections two_mail_text stale_state)
   \<and> fst (detectName two_mail_lines (snd (detectName two_mail_lines initial_state)))
       \<noteq> fst (detectName two_mail_lines initial_state)"
proof -
  have 1: "snd (detectName two_mail_lines initial_state) = stale_state"
    by (simp add: detectName_first_call stale_state_def)
  have 3: "det_name (fst (detectSections two_mail_text (snd (detectSections two_mail_text stale_state))))
       = Some (js ''a@b.cd xxxxxxxxxxxxxxx e@f.gh'')"
    by (simp add: detectSections_resets fresh_run_name)
  have "det_name (fst (detectSections two_mail_text (snd (detectSections two_mail_text stale_state))))
       \<noteq> det_name (fst (detectSections two_mail_text stale_state))"
    unfolding 3 stale_run_name using two_names_differ by simp
  then have 4: "fst (detectSections two_mail_text (snd (detectSections two_mail_text stale_state)))
       \<noteq> fst (detectSections two_mail_text stale_state)"
    by auto
  from 1 stale_run_name 3 4 detectName_alone_not_repeatable show ?thesis
    by blast
qed

section \<open>The useAI option\<close>

text \<open>
  C3. The result of \<open>parseResume\<close> with \<open>useAI\<close> set equals the result with \<open>useAI\<close>
  absent, on every document, whether or not an API key is configured: data, metadata,
  decoder calls and pattern state are the same.
\<close>

theorem parseResume_useAI_noop:
  "parseResume w env st filePath mimetype \<lparr>useAI = Some True\<rparr>
     = parseResume w env st filePath mimetype \<lparr>useAI = None\<rparr>"
  by (simp add: parseResume_def Let_def cong: prod.case_cong sum.case_cong if_cong)

section \<open>Failures of the pipeline\<close>

lemma extractText_unsupported:
  "mimetype \<notin> set supported_types
   \<Longrightarrow> extractText w filePath mimetype = ([], Inl (UnsupportedFormat mimetype))"
  by (simp add: extractText_def supported_types_def Let_def)

lemma parseResume_extraction_failed:
  "snd (extractText w filePath mimetype) = Inl e
   \<Longrightarrow> parseResume w env st filePath mimetype options
       = \<lparr>result = Failure (message e), attempts = fst (extractText w filePath mimetype),
          regexps = st\<rparr>"
  by (cases "extractText w filePath mimetype") (simp add: parseResume_def)

lemma parseResume_too_short:
  "snd (extractText w filePath mimetype) = Inr t \<Longrightarrow> length t < 50
   \<Longrightarrow> parseResume w env st filePath mimetype options
       = \<lparr>result = Failure (message InsufficientContent),
          attempts = fst (extractText w filePath mimetype), regexps = st\<rparr>"
  by (cases "extractText w filePath mimetype") (simp add: parseResume_def)

lemma parseResume_proceeds:
  "snd (extractText w filePath mimetype) = Inr t \<Longrightarrow> \<not> length t < 50
   \<Longrightarrow> data (result (parseResume w env st filePath mimetype options))
       = Some (createPortfolioSchema (fst (detectSections t st)))"
  by (cases "extractText w filePath mimetype") (auto simp add: parseResume_def Let_def)

lemma extractText_normalized:
  "snd (extractText w filePath mimetype) = Inr t \<Longrightarrow> \<exists>raw. t = normalizeText raw"
  by (auto simp: extractText_def Let_def extractFromPDF_def extractFromDOCX_def
        extractFromTXT_def split: if_splits sum.splits)

lemma fifty_extracted:
  "snd (extractText (txt_world fifty) (js ''cv.txt'') (js ''text/plain''))
     = Inr (normalizeText fifty)"
  by (simp add: extractText_def Let_def extractFromTXT_def txt_world_def) code_simp

lemma fifty_length: "length (normalizeText fifty) = 50"
  by code_simp

lemma fortynine_extracted:
  "snd (extractText (txt_world fortynine) (js ''cv.txt'') (js ''text/plain''))
     = Inr (normalizeText fortynine)"
  by (simp add: extractText_def Let_def extractFromTXT_def txt_world_def) code_simp

lemma fortynine_length: "length (normalizeText fortynine) = 49"
  by code_simp

text \<open>
  C6. When extraction gives a text (which is a normalized text), \<open>parseResume\<close> fails with
  the too-short error exactly when that text has fewer than 50 code units; from 50 on it
  goes on to detection and normalization and returns their record.
\<close>

theorem length_floor:
  assumes "snd (extractText w filePath mimetype) = Inr text"
  shows "(\<exists>raw. text = normalizeText raw)
     \<and> ((result (parseResume w env st filePath mimetype options)
            = Failure (message InsufficientContent))
          = (length text < 50))
     \<and> (50 \<le> length text \<longrightarrow>
          data (result (parseResume w env st filePath mimetype options))
            = Some (createPortfolioSchema (fst (detectSections text st))))"
proof (cases "length text < 50")
  case True
  with assms show ?thesis
    by (simp add: parseResume_too_short extractText_normalized)
next
  case False
  have "result (parseResume w env st filePath mimetype options)
          \<noteq> Failure (message InsufficientContent)"
    using parseResume_proceeds [OF assms False, of env st options]
    by (cases "result (parseResume w env st filePath mimetype options)") auto
  with assms False show ?thesis
    by (simp add: parseResume_proceeds extractText_normalized)
qed

theorem length_floor_witness:
  "snd (extractText (txt_world fifty) (js ''cv.txt'') (js ''text/plain''))
     = Inr (normalizeText fifty)
   \<and> length (normalizeText fifty) = 50
   \<and> result (parseResume (txt_world fifty) no_key initial_state (js ''cv.txt'')
        (js ''text/plain'') no_options) \<noteq> Failure (message InsufficientContent)
   \<and> data (result (parseResume (txt_world fifty) no_key initial_state (js ''cv.txt'')
        (js ''text/plain'') no_options))
       = Some (createPortfolioSchema (fst (detectSections (normalizeText fifty) initial_state)))"
  using length_floor [OF fifty_extracted, of no_key initial_state no_options]
    fifty_extracted fifty_length
  by simp

text \<open>
  C9. A MIME type outside the three supported ones makes \<open>extractText\<close> raise
  \<open>UnsupportedFormat\<close> without calling any decoder. When extraction raises an error, or
  the extracted text has fewer than 50 code units, \<open>parseResume\<close> returns a failure that
  carries the one message of that error, with \<open>null\<close> data and no metadata.
\<close>

theorem failures_carry_no_data:
  "(m0 \<notin> set supported_types
      \<longrightarrow> extractText w0 f0 m0 = ([], Inl (UnsupportedFormat m0)))
   \<and> (snd (extractText w1 f1 m1) = Inl e
      \<longrightarrow> result (parseResume w1 env1 st1 f1 m1 o1) = Failure (message e)
        \<and> data (result (parseResume w1 env1 st1 f1 m1 o1)) = None
        \<and> metadata (result (parseResume w1 env1 st1 f1 m1 o1)) = None)
   \<and> (snd (extractText w2 f2 m2) = Inr t \<and> length t < 50
      \<longrightarrow> result (parseResume w2 env2 st2 f2 m2 o2) = Failure (message InsufficientContent)
        \<and> data (result (parseResume w2 env2 st2 f2 m2 o2)) = None
        \<and> metadata (result (parseResume w2 env2 st2 f2 m2 o2)) = None)"
  by (simp add: extractText_unsupported parseResume_extraction_failed parseResume_too_short)

lemma png_unsupported: "js ''image/png'' \<notin> set supported_types"
  by code_simp

theorem failures_carry_no_data_witness:
  "js ''image/png'' \<notin> set supported_types
   \<and> extractText (txt_world fifty) (js ''cv.png'') (js ''image/png'')
       = ([], Inl (UnsupportedFormat (js ''image/png'')))
   \<and> result (parseResume (txt_world fifty) no_key initial_state (js ''cv.png'')
        (js ''image/png'') no_options) = Failure (js ''Unsupported file type: image/png'')
   \<and> data (result (parseResume (txt_world fifty) no_key initial_state (js ''cv.png'')
        (js ''image/png'') no_options)) = None
   \<and> length (normalizeText fortynine) < 50
   \<and> result (parseResume (txt_world fortynine) no_key initial_state (js ''cv.txt'')
        (js ''text/plain'') no_options) = Failure (message InsufficientContent)
   \<and> data (result (parseResume (txt_world fortynine) no_key initial_state (js ''cv.txt'')
        (js ''text/plain'') no_options)) = None"
  using failures_carry_no_data [of "js ''image/png''" "txt_world fifty" "js ''cv.png''"
      "txt_world fifty" "js ''cv.png''" "js ''image/png''" "UnsupportedFormat (js ''image/png'')"
      no_key initial_state no_options
      "txt_world fortynine" "js ''cv.txt''" "js ''text/plain''" "normalizeText fortynine"
      no_key initial_state no_options]
    png_unsupported fortynine_extracted fortynine_length
  by (simp add: extractText_unsupported js_def)

section \<open>The normalizer's record\<close>

lemma null_leaves_mem: "(q \<in> set (null_leaves r)) = ((q, None) \<in> set (leaves r))"
  by (force simp: null_leaves_def)

lemma strings_not_null: "(q, None) \<notin> set (leaves_strings p xs)"
  by (auto simp: leaves_strings_def)

lemma skill_not_null: "(q, None) \<notin> set (leaves_skill p g)"
  by (simp add: leaves_skill_def strings_not_null)

lemma experience_not_null: "(q, None) \<notin> set (leaves_experience p e)"
  by (simp add: leaves_experience_def strings_not_null)

lemma education_not_null: "(q, None) \<notin> set (leaves_education p e)"
  by (simp add: leaves_education_def)

lemma customizations_not_null: "(q, None) \<notin> set (leaves_customizations p c)"
  by (simp add: leaves_customizations_def)

lemma leaves_array_mem:
  "(pv \<in> set (leaves_array k f xs)) = (\<exists>i < length xs. pv \<in> set (f [Key k, Idx i] (xs ! i)))"
proof
  assume "pv \<in> set (leaves_array k f xs)"
  then show "\<exists>i < length xs. pv \<in> set (f [Key k, Idx i] (xs ! i))"
    by (auto simp: leaves_array_def in_set_enumerate_eq)
next
  assume "\<exists>i < length xs. pv \<in> set (f [Key k, Idx i] (xs ! i))"
  then obtain i where i: "i < length xs" "pv \<in> set (f [Key k, Idx i] (xs ! i))"
    by blast
  then have "(i, xs ! i) \<in> set (enumerate 0 xs)"
    by (simp add: in_set_enumerate_eq)
  with i show "pv \<in> set (leaves_array k f xs)"
    unfolding leaves_array_def by force
qed

lemma project_null:
  "((q, None) \<in> set (leaves_project p x))
     = ((q = p @ [Key ''link''] \<and> proj_link x = None) \<or> (q = p @ [Key ''image''] \<and> proj_image x = None))"
  by (simp add: leaves_project_def strings_not_null eq_commute [of None])

lemma links_null:
  "((q, None) \<in> set (leaves_links p l))
     = ((q = p @ [Key ''github''] \<and> l_github l = None)
        \<or> (q = p @ [Key ''linkedin''] \<and> l_linkedin l = None)
        \<or> (q = p @ [Key ''email''] \<and> l_email l = None)
        \<or> (q = p @ [Key ''phone''] \<and> l_phone l = None)
        \<or> (q = p @ [Key ''website''] \<and> l_website l = None))"
  by (simp add: leaves_links_def eq_commute [of None])

lemma array_not_null:
  "(\<And>p x. (q, None) \<notin> set (f p x)) \<Longrightarrow> (q, None) \<notin> set (leaves_array k f xs)"
  by (simp add: leaves_array_mem)

lemma projects_null:
  "((q, None) \<in> set (leaves_array ''projects'' leaves_project xs))
     = (\<exists>i < length xs.
          (q = [Key ''projects'', Idx i, Key ''link''] \<and> proj_link (xs ! i) = None)
          \<or> (q = [Key ''projects'', Idx i, Key ''image''] \<and> proj_image (xs ! i) = None))"
  by (simp add: leaves_array_mem project_null)

lemma null_leaves_split:
  "(q \<in> set (null_leaves r))
     = ((q, None) \<in> set (leaves_array ''projects'' leaves_project (projects r))
        \<or> (q, None) \<in> set (leaves_links [Key ''links''] (links r)))"
  unfolding null_leaves_mem leaves_def
  by (simp add: array_not_null skill_not_null experience_not_null education_not_null
        customizations_not_null)

lemma null_leaves_iff:
  "(q \<in> set (null_leaves r))
     = ((\<exists>i < length (projects r).
              (q = [Key ''projects'', Idx i, Key ''link''] \<and> proj_link (projects r ! i) = None)
              \<or> (q = [Key ''projects'', Idx i, Key ''image''] \<and> proj_image (projects r ! i) = None))
        \<or> (q = [Key ''links'', Key ''github''] \<and> l_github (links r) = None)
        \<or> (q = [Key ''links'', Key ''linkedin''] \<and> l_linkedin (links r) = None)
        \<or> (q = [Key ''links'', Key ''email''] \<and> l_email (links r) = None)
        \<or> (q = [Key ''links'', Key ''phone''] \<and> l_phone (links r) = None)
        \<or> (q = [Key ''links'', Key ''website''] \<and> l_website (links r) = None))"
  unfolding null_leaves_split projects_null links_null
  by simp

lemma or_null_None: "(or_null v = None) = (\<not> truthy v)"
  by (auto simp: or_null_def truthy_def split: option.splits)

lemma normalizeProjects_length: "length (normalizeProjects xs) = length xs"
  by (simp add: normalizeProjects_def)

lemma normalizeProjects_nth:
  "i < length xs \<Longrightarrow> proj_link (normalizeProjects xs ! i) = or_null (rproj_link (xs ! i))
      \<and> proj_image (normalizeProjects xs ! i) = None"
  by (auto simp add: normalizeProjects_def)

lemma createPortfolioSchema_projects:
  "projects (createPortfolioSchema ds) = normalizeProjects (det_projects ds)"
  by (simp add: createPortfolioSchema_def Let_def)

lemma createPortfolioSchema_links:
  "links (createPortfolioSchema ds) = normalizeLinks (det_contact ds) (det_links ds)"
  by (simp add: createPortfolioSchema_def Let_def)

lemma createPortfolioSchema_lengths:
  "length (experience (createPortfolioSchema ds)) = length (det_experience ds)
   \<and> length (projects (createPortfolioSchema ds)) = length (det_projects ds)
   \<and> length (education (createPortfolioSchema ds)) = length (det_education ds)"
  by (simp add: createPortfolioSchema_def Let_def normalizeExperience_def normalizeProjects_def
        normalizeEducation_def)

lemma nothing_detected_nulls:
  "null_leaves (createPortfolioSchema nothing_detected)
     = [[Key ''links'', Key ''github''], [Key ''links'', Key ''linkedin''],
        [Key ''links'', Key ''email''], [Key ''links'', Key ''phone''],
        [Key ''links'', Key ''website'']]"
  by code_simp

text \<open>
  C1, as the code has it. \<open>createPortfolioSchema\<close> is total and every list of its record
  is present, with one entry per detected entry. Its record does have \<open>null\<close> leaves,
  and they are exactly these: each of the five links whose detected value is absent or
  empty, the link of each project whose detected link is absent or empty, and the image of
  every project. Every other leaf is a string.
\<close>

theorem normalizer_nulls:
  "((q \<in> set (null_leaves (createPortfolioSchema ds)))
     = ((\<exists>i < length (det_projects ds).
              (q = [Key ''projects'', Idx i, Key ''link''] \<and> \<not> truthy (rproj_link (det_projects ds ! i)))
              \<or> q = [Key ''projects'', Idx i, Key ''image''])
        \<or> (q = [Key ''links'', Key ''github''] \<and> \<not> truthy (github (det_links ds)))
        \<or> (q = [Key ''links'', Key ''linkedin''] \<and> \<not> truthy (linkedin (det_links ds)))
        \<or> (q = [Key ''links'', Key ''email''] \<and> \<not> truthy (email (det_contact ds)))
        \<or> (q = [Key ''links'', Key ''phone''] \<and> \<not> truthy (phone (det_contact ds)))
        \<or> (q = [Key ''links'', Key ''website''] \<and> \<not> truthy (website (det_links ds)))))
   \<and> length (experience (createPortfolioSchema ds)) = length (det_experience ds)
   \<and> length (projects (createPortfolioSchema ds)) = length (det_projects ds)
   \<and> length (education (createPortfolioSchema ds)) = length (det_education ds)"
proof -
  have p: "(\<exists>i < length (projects (createPortfolioSchema ds)).
              (q = [Key ''projects'', Idx i, Key ''link''] \<and> proj_link (projects (createPortfolioSchema ds) ! i) = None)
              \<or> (q = [Key ''projects'', Idx i, Key ''image''] \<and> proj_image (projects (createPortfolioSchema ds) ! i) = None))
        = (\<exists>i < length (det_projects ds).
              (q = [Key ''projects'', Idx i, Key ''link''] \<and> \<not> truthy (rproj_link (det_projects ds ! i)))
              \<or> q = [Key ''projects'', Idx i, Key ''image''])"
    unfolding createPortfolioSchema_projects normalizeProjects_length
    using normalizeProjects_nth [of _ "det_projects ds"]
    by (metis or_null_None)
  show ?thesis
    unfolding null_leaves_iff p
    by (simp add: createPortfolioSchema_links normalizeLinks_def or_null_None
          createPortfolioSchema_lengths)
qed

theorem normalizer_nulls_witness:
  "[Key ''projects'', Idx 0, Key ''image''] \<in> set (null_leaves (createPortfolioSchema one_project))
   \<and> [Key ''projects'', Idx 0, Key ''link''] \<in> set (null_leaves (createPortfolioSchema one_project))
   \<and> [Key ''links'', Key ''github''] \<in> set (null_leaves (createPortfolioSchema one_project))
   \<and> [Key ''name''] \<notin> set (null_leaves (createPortfolioSchema one_project))
   \<and> length (projects (createPortfolioSchema one_project)) = 1
   \<and> [Key ''projects'', Idx 0, Key ''link''] \<in> set (null_leaves (createPortfolioSchema two_projects))
   \<and> [Key ''projects'', Idx 1, Key ''link''] \<notin> set (null_leaves (createPortfolioSchema two_projects))
   \<and> [Key ''projects'', Idx 1, Key ''image''] \<in> set (null_leaves (createPortfolioSchema two_projects))"
proof -
  have one: "length (det_projects one_project) = 1"
    "\<not> truthy (rproj_link (det_projects one_project ! 0))"
    "\<not> truthy (github (det_links one_project))"
    by (simp_all add: one_project_def nothing_detected_def truthy_def)
  have two: "length (det_projects two_projects) = 2"
    "\<not> truthy (rproj_link (det_projects two_projects ! 0))"
    "truthy (rproj_link (det_projects two_projects ! 1))"
    by (simp_all add: two_projects_def nothing_detected_def truthy_def js_def)
  show ?thesis
    using normalizer_nulls [of "[Key ''projects'', Idx 0, Key ''image'']" one_project]
      normalizer_nulls [of "[Key ''projects'', Idx 0, Key ''link'']" one_project]
      normalizer_nulls [of "[Key ''links'', Key ''github'']" one_project]
      normalizer_nulls [of "[Key ''name'']" one_project]
      normalizer_nulls [of "[Key ''projects'', Idx 0, Key ''link'']" two_projects]
      normalizer_nulls [of "[Key ''projects'', Idx 1, Key ''link'']" two_projects]
      normalizer_nulls [of "[Key ''projects'', Idx 1, Key ''image'']" two_projects]
      one two
    by (simp add: less_Suc_eq numeral_2_eq_2)
qed

text \<open>
  C1 as stated fails: the record made from a document in which nothing was detected has
  five \<open>null\<close> leaves.
\<close>

theorem normalizer_has_null_leaves:
  "null_leaves (createPortfolioSchema nothing_detected) \<noteq> []"
  by (simp add: nothing_detected_nulls)

section \<open>The detected name\<close>









section \<open>The name of the record\<close>

lemma unknown_loop: "detectName_loop [js ''Unknown''] initial_state = (None, initial_state)"
  by code_simp

lemma unknown_detected: "detectName [js ''Unknown''] initial_state = (js ''Unknown'', initial_state)"
  by code_simp

lemma unknown_name:
  "name (createPortfolioSchema (fst (detectSections (js ''Unknown'') initial_state)))
     = js ''Portfolio Owner''"
  by code_simp

lemma jane_name: "normalizeName (Some (js '' Jane Doe '')) = js ''Jane Doe''"
  by code_simp

text \<open>
  C8. On the document whose only line is \<open>Unknown\<close> no line qualifies in the loop,
  \<open>detectName\<close> falls back to the first line and returns \<open>Unknown\<close>, and the record gets
  the name \<open>Portfolio Owner\<close>. In general \<open>normalizeName\<close> gives \<open>Portfolio Owner\<close> for
  an absent name, the empty name and the name \<open>Unknown\<close>, and the trimmed name for every
  other one.
\<close>

theorem name_fallback:
  "detectName_loop [js ''Unknown''] initial_state = (None, initial_state)
   \<and> detectName [js ''Unknown''] initial_state = (js ''Unknown'', initial_state)
   \<and> name (createPortfolioSchema (fst (detectSections (js ''Unknown'') initial_state)))
       = js ''Portfolio Owner''
   \<and> normalizeName None = js ''Portfolio Owner''
   \<and> normalizeName (Some []) = js ''Portfolio Owner''
   \<and> normalizeName (Some (js ''Unknown'')) = js ''Portfolio Owner''
   \<and> (n \<noteq> [] \<and> n \<noteq> js ''Unknown'' \<longrightarrow> normalizeName (Some n) = trim n)"
  by (intro conjI impI unknown_loop unknown_detected unknown_name)
     (simp_all add: normalizeName_def)

theorem name_fallback_witness:
  "js '' Jane Doe '' \<noteq> [] \<and> js '' Jane Doe '' \<noteq> js ''Unknown''
   \<and> normalizeName (Some (js '' Jane Doe '')) = js ''Jane Doe''
   \<and> trim (js '' Jane Doe '') = js ''Jane Doe''"
  using name_fallback [of "js '' Jane Doe ''"] jane_name
  by (simp add: js_def)

section \<open>The headline\<close>

lemma headline_createPortfolioSchema:
  "headline (createPortfolioSchema ds)
     = (case det_experience ds of
          [] \<Rightarrow> js ''Professional''
        | e # _ \<Rightarrow> or_str (rexp_role e) (js ''Position''))"
  by (cases "det_experience ds")
     (auto simp: createPortfolioSchema_def Let_def generateHeadline_def normalizeExperience_def
        or_str_def js_def split: option.splits)

lemma gap_experience:
  "det_experience (fst (detectSections gap_text initial_state))
     = [\<lparr>rexp_role = Some [], rexp_company = Some [], rexp_duration = js ''Jan 2019 - Dec 2020'',
         rexp_description = js ''built many useful things'',
         rexp_highlights = [js ''built many useful things'']\<rparr>]"
  by code_simp

lemma gap_headline:
  "headline (createPortfolioSchema (fst (detectSections gap_text initial_state))) = js ''Position''"
  by code_simp

lemma gap_parsed:
  "map_option headline (data (result (parseResume (txt_world gap_text) no_key initial_state
      (js ''cv.txt'') (js ''text/plain'') no_options))) = Some (js ''Position'')"
  by code_simp

lemma position_not_professional: "js ''Position'' \<noteq> js ''Professional''"
  by code_simp

text \<open>
  C5. The headline is to be \<open>Professional\<close> when the first entry's detected role is
  the empty string, and \<open>generateHeadline\<close> has the guard for it. But
  \<open>createPortfolioSchema\<close> hands it the normalized entries, whose empty role
  \<open>normalizeExperience\<close> has already replaced by \<open>Position\<close>, so the guard never fires:
  on the plain-text file \<open>gap_text\<close> the first detected role is empty and the headline of
  the parsed record is \<open>Position\<close>.
\<close>

theorem headline_of_empty_role:
  "map rexp_role (det_experience (fst (detectSections gap_text initial_state))) = [Some []]
   \<and> headline (createPortfolioSchema (fst (detectSections gap_text initial_state))) = js ''Position''
   \<and> map_option headline (data (result (parseResume (txt_world gap_text) no_key initial_state
         (js ''cv.txt'') (js ''text/plain'') no_options))) = Some (js ''Position'')
   \<and> js ''Position'' \<noteq> js ''Professional''
   \<and> generateHeadline n [\<lparr>exp_role = [], exp_company = [], exp_duration = [],
        exp_description = [], exp_highlights = []\<rparr>] = js ''Professional''"
  by (simp add: gap_experience gap_headline gap_parsed position_not_professional
        generateHeadline_def)

section \<open>Text normalization\<close>

declare replace_go.simps [simp del]

lemma three_breaks_eq:
  "three_breaks = Seq (Seq (Cls [(10, 10)]) (Seq (Cls [(10, 10)]) (Cls [(10, 10)]))) (Star (Cls [(10, 10)]))"
  by code_simp

lemma in_ranges_single: "in_ranges c [(a, a)] = (c = a)"
  by (auto simp: in_ranges_def)

lemma ends_three_breaks: "no_adj cs \<Longrightarrow> ends three_breaks (i, cs) = []"
proof (cases cs)
  case Nil
  then show ?thesis by (simp add: three_breaks_eq in_ranges_single)
next
  case (Cons a t)
  assume n: "no_adj cs"
  show ?thesis
  proof (cases t)
    case Nil
    with Cons show ?thesis by (simp add: three_breaks_eq in_ranges_single)
  next
    case (Cons b t')
    with \<open>cs = a # t\<close> n show ?thesis by (auto simp add: three_breaks_eq in_ranges_single)
  qed
qed

lemma no_adj_tl: "no_adj (c # t) \<Longrightarrow> no_adj t"
  by (cases t) auto

lemma replace_go_no_adj: "no_adj cs \<Longrightarrow> replace_go three_breaks rep i cs = cs"
proof (induction cs arbitrary: i)
  case Nil
  then show ?case
    by (subst replace_go.simps) (simp add: ends_three_breaks)
next
  case (Cons c t)
  then show ?case
    by (subst replace_go.simps) (simp add: ends_three_breaks no_adj_tl)
qed

lemma no_adj_append: "10 \<notin> set x \<Longrightarrow> no_adj (x @ r) = no_adj r"
proof (induction x)
  case Nil
  then show ?case by simp
next
  case (Cons a x)
  then show ?case by (cases "x @ r") auto
qed

lemma no_adj_break: "no_adj (10 # r) = ((r = [] \<or> hd r \<noteq> 10) \<and> no_adj r)"
  by (cases r) auto

lemma join_Cons: "join sep (y # ys) = y @ (if ys = [] then [] else sep @ join sep ys)"
  by (cases ys) auto

lemma no_adj_join: "list_all good_line ls \<Longrightarrow> no_adj (join newline ls)"
proof (induction ls)
  case Nil
  then show ?case by simp
next
  case (Cons y ys)
  show ?case
  proof (cases ys)
    case Nil
    with Cons show ?thesis by (simp add: good_line_def no_adj_append [of y "[]", simplified])
  next
    case (Cons z zs)
    with Cons.prems have z: "z \<noteq> []" "10 \<notin> set z" by (auto simp: good_line_def)
    then have "hd (join newline (z # zs)) \<noteq> 10"
      by (cases z) (auto simp: join_Cons)
    moreover have "no_adj (join newline ys)" using Cons.IH Cons.prems by simp
    ultimately show ?thesis using Cons.prems Cons
      by (simp add: good_line_def no_adj_append newline_def no_adj_break)
  qed
qed

lemma split_go_line: "10 \<notin> set x \<Longrightarrow> split_go newline cur (x @ r) = split_go newline (cur @ x) r"
  by (induction x arbitrary: cur) (auto simp: newline_def)

lemma split_go_join:
  "list_all good_line (x # xs) \<Longrightarrow> split_go newline cur (join newline (x # xs)) = (cur @ x) # xs"
proof (induction xs arbitrary: x cur)
  case Nil
  then show ?case
    using split_go_line [of x cur "[]"] by (simp add: good_line_def)
next
  case (Cons y ys)
  then have "split_go newline cur (x @ newline @ join newline (y # ys))
      = split_go newline (cur @ x) (newline @ join newline (y # ys))"
    by (simp add: split_go_line good_line_def)
  also have "\<dots> = (cur @ x) # split_go newline [] (join newline (y # ys))"
    by (simp add: newline_def)
  also have "\<dots> = (cur @ x) # y # ys"
    using Cons.IH [of y "[]"] Cons.prems by simp
  finally show ?case by simp
qed

lemma split_go_pieces: "10 \<notin> set cur \<Longrightarrow> p \<in> set (split_go newline cur s) \<Longrightarrow> 10 \<notin> set p"
proof (induction s arbitrary: cur)
  case Nil
  then show ?case by simp
next
  case (Cons a s)
  show ?case
  proof (cases "a = 10")
    case True
    with Cons.prems have "p = cur \<or> p \<in> set (split_go newline [] s)"
      by (simp add: newline_def)
    with Cons.prems(1) Cons.IH [of "[]"] show ?thesis by auto
  next
    case False
    with Cons.prems have "p \<in> set (split_go newline (cur @ [a]) s)"
      by (simp add: newline_def)
    with Cons.prems(1) False Cons.IH [of "cur @ [a]"] show ?thesis by auto
  qed
qed

lemma set_trim: "set (trim s) \<subseteq> set s"
proof -
  have "set (trim s) = set (dropWhile is_ws (rev (dropWhile is_ws s)))"
    by (simp add: trim_def)
  also have "\<dots> \<subseteq> set (rev (dropWhile is_ws s))"
    by (rule set_dropWhileD [THEN subsetI])
  also have "\<dots> \<subseteq> set s"
    by (auto dest: set_dropWhileD)
  finally show ?thesis .
qed

lemma dropWhile_fixed: "xs = [] \<or> \<not> P (hd xs) \<Longrightarrow> dropWhile P xs = xs"
  by (cases xs) auto

lemma trim_idem: "trim (trim s) = trim s"
proof -
  define u where "u = dropWhile is_ws s"
  define v where "v = dropWhile is_ws (rev u)"
  have t: "trim s = rev v"
    by (simp add: trim_def u_def v_def)
  have "rev u = takeWhile is_ws (rev u) @ v"
    by (simp add: v_def)
  then have "u = rev v @ rev (takeWhile is_ws (rev u))"
    by (metis rev_append rev_rev_ident)
  then have hd_eq: "v \<noteq> [] \<Longrightarrow> hd (rev v) = hd u \<and> u \<noteq> []"
    by (metis Nil_is_append_conv Nil_is_rev_conv hd_append2)
  have "v \<noteq> [] \<Longrightarrow> \<not> is_ws (hd (rev v))"
    using hd_eq hd_dropWhile [of is_ws s] by (simp add: u_def)
  then have 1: "dropWhile is_ws (rev v) = rev v"
    by (intro dropWhile_fixed) auto
  have 2: "dropWhile is_ws v = v"
    by (simp add: v_def)
  show ?thesis
    unfolding t by (simp add: trim_def 1 2)
qed

lemma good_lines:
  "list_all good_line (filter (\<lambda>line. length line > 0) (map trim (split newline s)))"
proof -
  have "good_line (trim p)" if "p \<in> set (split newline s)" "trim p \<noteq> []" for p
  proof -
    have "10 \<notin> set p"
      using that(1) split_go_pieces [of "[]" p s] by (simp add: split_def)
    then have "10 \<notin> set (trim p)"
      using set_trim [of p] by auto
    with that(2) show ?thesis
      by (simp add: good_line_def trim_idem)
  qed
  then show ?thesis
    by (auto simp: list_all_iff)
qed

lemma normalizeText_join:
  assumes "list_all good_line ls"
  shows "normalizeText (join newline ls) = join newline ls"
proof -
  have lines: "filter (\<lambda>line. length line > 0) (map trim (split newline (join newline ls))) = ls"
  proof (cases ls)
    case Nil
    then show ?thesis by (simp add: split_def) code_simp
  next
    case (Cons x xs)
    with assms have "split newline (join newline ls) = ls"
      using split_go_join [of x xs "[]"] by (simp add: split_def)
    moreover have "map trim ls = ls"
      using assms by (induction ls) (auto simp: good_line_def)
    moreover have "filter (\<lambda>line. length line > 0) ls = ls"
      using assms by (induction ls) (auto simp: good_line_def)
    ultimately show ?thesis by simp
  qed
  show ?thesis
    unfolding normalizeText_def lines
    by (simp add: replace_all_def replace_go_no_adj no_adj_join assms)
qed

text \<open>
  C4. Text normalization is idempotent: the normalized text is the join of non-empty,
  trimmed lines without a break inside, so splitting it gives these lines back, trimming
  and filtering keep them, and no run of three breaks is there to replace.
\<close>

theorem normalizeText_idempotent: "normalizeText (normalizeText s) = normalizeText s"
proof -
  define ls where "ls = filter (\<lambda>line. length line > 0) (map trim (split newline s))"
  have g: "list_all good_line ls"
    unfolding ls_def by (rule good_lines)
  have "normalizeText s = join newline ls"
    unfolding normalizeText_def ls_def [symmetric]
    by (simp add: replace_all_def replace_go_no_adj no_adj_join g)
  with normalizeText_join [OF g] show ?thesis by simp
qed

theorem normalizeText_idempotent_witness:
  "normalizeText (normalizeText fifty) = normalizeText fifty \<and> length (normalizeText fifty) = 50"
  using normalizeText_idempotent [of fifty] fifty_length
  by simp


section \<open>The boundaries of the sections\<close>

lemma get_set_section: "get_section k (set_section c v s) = (if c = k then v else get_section k s)"
  by (cases k; cases c) simp_all

lemma get_save_section:
  "get_section k (save_section lines i st)
     = (if currentSection st = Some k \<and> sectionStartIndex st \<ge> 0
        then slice lines (nat (sectionStartIndex st)) i
        else get_section k (sections st))"
  by (auto simp: save_section_def get_set_section split: option.splits)

lemma loop_append:
  "findSections_loop lines i (m + n) st
     = findSections_loop lines (i + m) n (findSections_loop lines i m st)"
  by (induction m arbitrary: i st) simp_all

lemma loop_no_header:
  "list_all (\<lambda>m. foundSection (lines ! m) = None) [i..<i + n]
   \<Longrightarrow> findSections_loop lines i n st = st"
proof (induction n arbitrary: i)
  case 0
  then show ?case by simp
next
  case (Suc n)
  from Suc.prems have "foundSection (lines ! i) = None"
    and "list_all (\<lambda>m. foundSection (lines ! m) = None) [Suc i..<Suc i + n]"
    by (auto simp: list_all_iff)
  with Suc.IH [of "Suc i"] show ?case
    by (simp add: findSections_step_def)
qed

lemma loop_other_kind:
  "list_all (\<lambda>m. foundSection (lines ! m) \<noteq> Some k) [i..<i + n]
   \<Longrightarrow> currentSection st \<noteq> Some k
   \<Longrightarrow> currentSection (findSections_loop lines i n st) \<noteq> Some k
       \<and> get_section k (sections (findSections_loop lines i n st)) = get_section k (sections st)"
proof (induction n arbitrary: i st)
  case 0
  then show ?case by simp
next
  case (Suc n)
  from Suc.prems(1) have here: "foundSection (lines ! i) \<noteq> Some k"
    and rest: "list_all (\<lambda>m. foundSection (lines ! m) \<noteq> Some k) [Suc i..<Suc i + n]"
    by (auto simp: list_all_iff)
  let ?st = "findSections_step lines i st"
  have "currentSection ?st \<noteq> Some k \<and> get_section k (sections ?st) = get_section k (sections st)"
    using here Suc.prems(2)
    by (auto simp: findSections_step_def get_save_section split: option.splits)
  with Suc.IH [OF rest, of ?st] show ?case by simp
qed

text \<open>
  C7, as the code has it. Let line \<open>i\<close> be a header of section \<open>k\<close>, and let \<open>j\<close> be
  the index of the next header line, or the number of lines when no header follows. If no
  line from \<open>j\<close> on is a header of the same section \<open>k\<close>, the content of section \<open>k\<close>
  is exactly the lines \<open>i + 1\<close> to \<open>j - 1\<close>; for the last header this is every line
  after it. (A later header of the same section replaces the content of the earlier one.)
\<close>

theorem section_content:
  assumes "i < j" and "j \<le> length lines"
    and "foundSection (lines ! i) = Some k"
    and "list_all (\<lambda>m. foundSection (lines ! m) = None) [Suc i..<j]"
    and "j < length lines \<longrightarrow> foundSection (lines ! j) \<noteq> None"
    and "list_all (\<lambda>m. foundSection (lines ! m) \<noteq> Some k) [j..<length lines]"
  shows "get_section k (findSections lines) = slice lines (Suc i) j"
proof -
  define st0 where "st0 = \<lparr>sections = no_sections, currentSection = None, sectionStartIndex = - 1\<rparr>"
  define sti where "sti = findSections_loop lines 0 i st0"
  define st1 where "st1 = findSections_step lines i sti"
  have st1: "currentSection st1 = Some k" "sectionStartIndex st1 = int i + 1"
    using assms(3) by (simp_all add: st1_def findSections_step_def)
  have start: "nat (int i + 1) = Suc i"
    by linarith
  have len: "length lines = i + (Suc 0 + ((j - Suc i) + (length lines - j)))"
    using assms(1,2) by simp
  have "findSections_loop lines 0 (length lines) st0
      = findSections_loop lines j (length lines - j)
          (findSections_loop lines (Suc i) (j - Suc i) st1)"
    apply (subst len)
    apply (simp only: loop_append)
    using assms(1) by (simp add: sti_def st1_def)
  moreover have "findSections_loop lines (Suc i) (j - Suc i) st1 = st1"
    using assms(1,4) loop_no_header [of lines "Suc i" "j - Suc i" st1] by simp
  ultimately have whole: "findSections_loop lines 0 (length lines) st0
      = findSections_loop lines j (length lines - j) st1"
    by simp
  show ?thesis
  proof (cases "j = length lines")
    case True
    with whole st1 start show ?thesis
      by (simp add: findSections_def st0_def get_save_section)
  next
    case False
    with assms(2) have jl: "j < length lines" by simp
    with assms(5) obtain k' where k': "foundSection (lines ! j) = Some k'" by auto
    from assms(6) jl have "foundSection (lines ! j) \<noteq> Some k"
      by (auto simp: list_all_iff)
    with k' have ne: "k' \<noteq> k" by auto
    define st2 where "st2 = findSections_step lines j st1"
    have st2: "currentSection st2 \<noteq> Some k" "get_section k (sections st2) = slice lines (Suc i) j"
      using k' ne st1 start by (simp_all add: st2_def findSections_step_def get_save_section)
    have "length lines - j = Suc (length lines - Suc j)"
      using jl by simp
    then have "findSections_loop lines j (length lines - j) st1
        = findSections_loop lines (Suc j) (length lines - Suc j) st2"
      by (simp add: st2_def)
    moreover have "list_all (\<lambda>m. foundSection (lines ! m) \<noteq> Some k)
        [Suc j..<Suc j + (length lines - Suc j)]"
      using assms(6) jl by (auto simp: list_all_iff)
    ultimately have "currentSection (findSections_loop lines j (length lines - j) st1) \<noteq> Some k
       \<and> get_section k (sections (findSections_loop lines j (length lines - j) st1))
           = slice lines (Suc i) j"
      using loop_other_kind [of lines k "Suc j" "length lines - Suc j" st2] st2 by simp
    with whole show ?thesis
      by (simp add: findSections_def st0_def get_save_section)
  qed
qed

lemma cv_headers:
  "foundSection (cv_lines ! 1) = Some Skills
   \<and> list_all (\<lambda>m. foundSection (cv_lines ! m) = None) [Suc 1..<3]
   \<and> (3 < length cv_lines \<longrightarrow> foundSection (cv_lines ! 3) \<noteq> None)
   \<and> list_all (\<lambda>m. foundSection (cv_lines ! m) \<noteq> Some Skills) [3..<length cv_lines]
   \<and> 3 \<le> length cv_lines"
  by code_simp

lemma cv_last_header:
  "foundSection (cv_lines ! 3) = Some Education
   \<and> list_all (\<lambda>m. foundSection (cv_lines ! m) = None) [Suc 3..<5]
   \<and> (5 < length cv_lines \<longrightarrow> foundSection (cv_lines ! 5) \<noteq> None)
   \<and> list_all (\<lambda>m. foundSection (cv_lines ! m) \<noteq> Some Education) [5..<length cv_lines]
   \<and> 5 \<le> length cv_lines"
  by code_simp

lemma cv_slices: "slice cv_lines (Suc 1) 3 = [js ''Python''] \<and> slice cv_lines (Suc 3) 5 = [js ''B.S. 2018'']"
  by code_simp

theorem section_content_witness:
  "foundSection (cv_lines ! 1) = Some Skills \<and> foundSection (cv_lines ! 3) = Some Education
   \<and> get_section Skills (findSections cv_lines) = [js ''Python'']
   \<and> get_section Education (findSections cv_lines) = [js ''B.S. 2018'']"
proof -
  have a: "(1::nat) < 3" and b: "(3::nat) < 5"
    by simp_all
  have "get_section Skills (findSections cv_lines) = slice cv_lines (Suc 1) 3"
    using cv_headers by (intro section_content [OF a]) simp_all
  moreover have "get_section Education (findSections cv_lines) = slice cv_lines (Suc 3) 5"
    using cv_last_header by (intro section_content [OF b]) simp_all
  ultimately show ?thesis
    using cv_headers cv_last_header cv_slices by simp
qed

lemma dup_sections:
  "map foundSection dup_lines = [Some Skills, None, Some Skills, None]
   \<and> get_section Skills (findSections dup_lines) = [js ''Java'']
   \<and> slice dup_lines (Suc 0) 2 = [js ''Python'']"
  by code_simp

lemma java_not_python: "[js ''Java''] \<noteq> [js ''Python'']"
  by code_simp

text \<open>
  C7 as stated fails when a section header recurs: in \<open>dup_lines\<close> the lines 0 and 2 are
  headers with no header between them, the section opened at line 0 is the skills
  section, and its content is not line 1 but the line after the second header.
\<close>

theorem repeated_header_replaces_content:
  "foundSection (dup_lines ! 0) = Some Skills
   \<and> foundSection (dup_lines ! 1) = None
   \<and> foundSection (dup_lines ! 2) = Some Skills
   \<and> get_section Skills (findSections dup_lines) \<noteq> slice dup_lines (Suc 0) 2"
  using dup_sections java_not_python
  by (simp add: dup_lines_def)



end
